theory Spec2Isabelle
  imports Main
begin

section \<open>JavaScript strings\<close>

text \<open>
  A JavaScript string is modelled as a \<open>string\<close>: the list of its code units, for texts
  whose code units lie in the range 0..255.  The characters that cannot be written inside
  a literal get a name.
\<close>

abbreviation DQ :: char where "DQ \<equiv> CHR 0x22"
abbreviation BSL :: char where "BSL \<equiv> CHR 0x5C"
abbreviation BTICK :: char where "BTICK \<equiv> CHR 0x60"
abbreviation LF :: char where "LF \<equiv> CHR 0x0A"
abbreviation CR :: char where "CR \<equiv> CHR 0x0D"
abbreviation TAB :: char where "TAB \<equiv> CHR 0x09"
abbreviation FF :: char where "FF \<equiv> CHR 0x0C"
abbreviation BS :: char where "BS \<equiv> CHR 0x08"

text \<open>White space and line terminators, as \<open>String.prototype.trim\<close> and the regular
  expression class \<open>\s\<close> understand them (the members below code unit 256).\<close>

definition is_space :: "char \<Rightarrow> bool" where
  "is_space c = (c \<in> set [CHR 0x09, CHR 0x0A, CHR 0x0B, CHR 0x0C, CHR 0x0D, CHR 0x20, CHR 0xA0])"

definition trim :: "string \<Rightarrow> string" where
  "trim s = rev (dropWhile is_space (rev (dropWhile is_space s)))"

definition startsWith :: "string \<Rightarrow> string \<Rightarrow> bool" where
  "startsWith s p = (take (length p) s = p)"

definition endsWith :: "string \<Rightarrow> string \<Rightarrow> bool" where
  "endsWith s p = (length p \<le> length s \<and> drop (length s - length p) s = p)"

text \<open>\<open>s.slice(n)\<close> for \<open>n \<ge> 0\<close> and \<open>s.slice(0, -n)\<close>.\<close>

definition slice_from :: "nat \<Rightarrow> string \<Rightarrow> string" where
  "slice_from n s = drop n s"

definition slice_to_end_minus :: "nat \<Rightarrow> string \<Rightarrow> string" where
  "slice_to_end_minus n s = take (length s - n) s"

section \<open>JavaScript numbers\<close>

text \<open>
  A number is \<open>NaN\<close>, an infinity, or the decimal \<open>m * 10 ^ e\<close> written \<open>Dec m e\<close>:
  every number this program reads comes from a decimal (or integer) literal.  The
  rounding of such a literal to binary floating point is not modelled, and the two zeros
  are not told apart.
\<close>

datatype jsnum = NaN | PosInf | NegInf | Dec int int

fun num_less :: "jsnum \<Rightarrow> jsnum \<Rightarrow> bool" where
  "num_less NaN y = False"
| "num_less x NaN = False"
| "num_less PosInf y = False"
| "num_less x PosInf = True"
| "num_less x NegInf = False"
| "num_less NegInf y = True"
| "num_less (Dec m e) (Dec n f) =
     (m * 10 ^ nat (e - min e f) < n * 10 ^ nat (f - min e f))"

definition num_le :: "jsnum \<Rightarrow> jsnum \<Rightarrow> bool" where
  "num_le x y = (x \<noteq> NaN \<and> y \<noteq> NaN \<and> \<not> num_less y x)"

text \<open>\<open>Math.min\<close> and \<open>Math.max\<close> of two arguments.\<close>

definition Math_min :: "jsnum \<Rightarrow> jsnum \<Rightarrow> jsnum" where
  "Math_min x y = (if x = NaN \<or> y = NaN then NaN else if num_less y x then y else x)"

definition Math_max :: "jsnum \<Rightarrow> jsnum \<Rightarrow> jsnum" where
  "Math_max x y = (if x = NaN \<or> y = NaN then NaN else if num_less x y then y else x)"

definition is_digit :: "char \<Rightarrow> bool" where
  "is_digit c = (c \<in> set ''0123456789'')"

text \<open>The value of a digit in a base up to sixteen (for a character that is a digit).\<close>

definition digit_val :: "char \<Rightarrow> nat" where
  "digit_val c =
     (if c \<in> set ''ABCDEF'' then 10 + length (takeWhile (\<lambda>d. d \<noteq> c) ''ABCDEF'')
      else length (takeWhile (\<lambda>d. d \<noteq> c) ''0123456789abcdef''))"

definition nat_of_digits :: "nat \<Rightarrow> string \<Rightarrow> nat" where
  "nat_of_digits base ds = foldl (\<lambda>acc c. acc * base + digit_val c) 0 ds"

fun digits_of_nat :: "nat \<Rightarrow> string" where
  "digits_of_nat n =
     (if n < 10 then [''0123456789'' ! n]
      else digits_of_nat (n div 10) @ [''0123456789'' ! (n mod 10)])"

declare digits_of_nat.simps [simp del]

text \<open>
  \<open>Number::toString\<close> in radix 10: with \<open>k\<close> significant digits and the decimal point
  after the \<open>n\<close>-th of them, plain notation for \<open>-6 < n \<le> 21\<close> and exponent notation
  otherwise.
\<close>

definition number_to_string :: "jsnum \<Rightarrow> string" where
  "number_to_string x =
     (case x of
        NaN \<Rightarrow> ''NaN''
      | PosInf \<Rightarrow> ''Infinity''
      | NegInf \<Rightarrow> ''-Infinity''
      | Dec m e \<Rightarrow>
          if m = 0 then ''0''
          else
            let ds0 = digits_of_nat (nat \<bar>m\<bar>);
                ds = rev (dropWhile (\<lambda>c. c = CHR ''0'') (rev ds0));
                k = int (length ds);
                n = int (length ds0) + e;
                sg = (if m < 0 then ''-'' else '''')
            in sg @
               (if k \<le> n \<and> n \<le> 21 then ds @ replicate (nat (n - k)) (CHR ''0'')
                else if 0 < n \<and> n \<le> 21 then take (nat n) ds @ ''.'' @ drop (nat n) ds
                else if -6 < n \<and> n \<le> 0 then ''0.'' @ replicate (nat (- n)) (CHR ''0'') @ ds
                else
                  let ex = (if n - 1 < 0 then ''-'' else ''+'') @ digits_of_nat (nat \<bar>n - 1\<bar>)
                  in if k = 1 then ds @ ''e'' @ ex
                     else take 1 ds @ ''.'' @ drop 1 ds @ ''e'' @ ex))"

text \<open>
  \<open>StringToNumber\<close>: the text is trimmed; the empty text is 0; otherwise it must be a
  whole numeric literal (an unsigned binary, octal or hexadecimal integer, or an optionally
  signed decimal or \<open>Infinity\<close>), and is \<open>NaN\<close> if it is not.
\<close>

definition unsigned_decimal :: "int \<Rightarrow> string \<Rightarrow> jsnum" where
  "unsigned_decimal sg u =
     (if u = ''Infinity'' then (if sg < 0 then NegInf else PosInf)
      else
        let ip = takeWhile is_digit u;
            r1 = dropWhile is_digit u;
            has_dot = (case r1 of c # _ \<Rightarrow> c = CHR ''.'' | [] \<Rightarrow> False);
            fp = (if has_dot then takeWhile is_digit (tl r1) else []);
            r2 = (if has_dot then dropWhile is_digit (tl r1) else r1);
            has_exp = (case r2 of c # _ \<Rightarrow> c = CHR ''e'' \<or> c = CHR ''E'' | [] \<Rightarrow> False);
            r3 = (if has_exp then tl r2 else r2);
            exp_neg = (has_exp \<and> (case r3 of c # _ \<Rightarrow> c = CHR ''-'' | [] \<Rightarrow> False));
            exp_signed =
              (has_exp \<and> (case r3 of c # _ \<Rightarrow> c = CHR ''-'' \<or> c = CHR ''+'' | [] \<Rightarrow> False));
            r4 = (if exp_signed then tl r3 else r3);
            ed = (if has_exp then takeWhile is_digit r4 else []);
            r5 = (if has_exp then dropWhile is_digit r4 else r4)
        in if (ip = [] \<and> fp = []) \<or> (has_exp \<and> ed = []) \<or> r5 \<noteq> [] then NaN
           else Dec (sg * int (nat_of_digits 10 (ip @ fp)))
                  ((if exp_neg then - int (nat_of_digits 10 ed) else int (nat_of_digits 10 ed))
                   - int (length fp)))"

definition radix_literal :: "nat \<Rightarrow> string \<Rightarrow> string \<Rightarrow> jsnum" where
  "radix_literal base allowed ds =
     (if ds \<noteq> [] \<and> list_all (\<lambda>c. c \<in> set allowed) ds then Dec (int (nat_of_digits base ds)) 0
      else NaN)"

definition StringToNumber :: "string \<Rightarrow> jsnum" where
  "StringToNumber str =
     (let t = trim str in
      if t = [] then Dec 0 0
      else if take 2 t = ''0x'' \<or> take 2 t = ''0X''
        then radix_literal 16 ''0123456789abcdefABCDEF'' (drop 2 t)
      else if take 2 t = ''0o'' \<or> take 2 t = ''0O'' then radix_literal 8 ''01234567'' (drop 2 t)
      else if take 2 t = ''0b'' \<or> take 2 t = ''0B'' then radix_literal 2 ''01'' (drop 2 t)
      else if take 1 t = ''+'' then unsigned_decimal 1 (drop 1 t)
      else if take 1 t = ''-'' then unsigned_decimal (- 1) (drop 1 t)
      else unsigned_decimal 1 t)"

section \<open>JavaScript values and errors\<close>

text \<open>
  The values that \<open>JSON.parse\<close> builds, and \<open>undefined\<close>.  An object is the list of its
  own properties in the order of their creation; a later entry for a key overrides an
  earlier one.
\<close>

datatype jsval =
    JUndefined
  | JNull
  | JBool bool
  | JNum jsnum
  | JStr string
  | JArr "jsval list"
  | JObj "(string \<times> jsval) list"

datatype error =
    SyntaxError
  | TypeError
  | ReferenceError string
  | TransportError
  | Error string

text \<open>A computation that may throw; \<open>bindE\<close> sequences two of them.\<close>

definition bindE :: "error + 'a \<Rightarrow> ('a \<Rightarrow> error + 'b) \<Rightarrow> error + 'b" where
  "bindE m f = (case m of Inl e \<Rightarrow> Inl e | Inr x \<Rightarrow> f x)"

fun mapE :: "('a \<Rightarrow> error + 'b) \<Rightarrow> 'a list \<Rightarrow> error + 'b list" where
  "mapE f [] = Inr []"
| "mapE f (x # xs) = bindE (f x) (\<lambda>y. bindE (mapE f xs) (\<lambda>ys. Inr (y # ys)))"

lemma mapE_cong [fundef_cong]:
  "xs = ys \<Longrightarrow> (\<And>x. x \<in> set ys \<Longrightarrow> f x = g x) \<Longrightarrow> mapE f xs = mapE g ys"
  by (induction ys arbitrary: xs) (auto simp: bindE_def)

definition own_property :: "(string \<times> jsval) list \<Rightarrow> string \<Rightarrow> jsval option" where
  "own_property kvs k = map_of (rev kvs) k"

text \<open>
  \<open>v.k\<close> for the property names this program reads, none of which a prototype defines:
  reading a property of \<open>null\<close> or \<open>undefined\<close> throws, an object yields its own property
  or \<open>undefined\<close>, any other value yields \<open>undefined\<close>.
\<close>

definition get_prop :: "jsval \<Rightarrow> string \<Rightarrow> error + jsval" where
  "get_prop v k =
     (case v of
        JUndefined \<Rightarrow> Inl TypeError
      | JNull \<Rightarrow> Inl TypeError
      | JObj kvs \<Rightarrow> (case own_property kvs k of Some x \<Rightarrow> Inr x | None \<Rightarrow> Inr JUndefined)
      | _ \<Rightarrow> Inr JUndefined)"

text \<open>\<open>Boolean(v)\<close>, which also decides \<open>v || d\<close>.\<close>

fun truthy :: "jsval \<Rightarrow> bool" where
  "truthy JUndefined = False"
| "truthy JNull = False"
| "truthy (JBool b) = b"
| "truthy (JNum NaN) = False"
| "truthy (JNum (Dec m e)) = (m \<noteq> 0)"
| "truthy (JNum x) = True"
| "truthy (JStr s) = (s \<noteq> [])"
| "truthy (JArr xs) = True"
| "truthy (JObj kvs) = True"

definition or_else :: "jsval \<Rightarrow> jsval \<Rightarrow> jsval" where
  "or_else v d = (if truthy v then v else d)"

definition isArray :: "jsval \<Rightarrow> bool" where
  "isArray v = (case v of JArr xs \<Rightarrow> True | _ \<Rightarrow> False)"

definition join :: "string \<Rightarrow> string list \<Rightarrow> string" where
  "join sep xs = (case xs of [] \<Rightarrow> [] | y # ys \<Rightarrow> y @ concat (map (\<lambda>z. sep @ z) ys))"

text \<open>
  \<open>String(v)\<close>.  An array is the comma-joined texts of its elements, \<open>null\<close> and
  \<open>undefined\<close> elements counting as empty.  A parsed object inherits \<open>toString\<close> unless it
  has an own property of that name, which is then not callable: the conversion throws.
\<close>

fun ToString :: "jsval \<Rightarrow> error + string" where
  "ToString JUndefined = Inr ''undefined''"
| "ToString JNull = Inr ''null''"
| "ToString (JBool b) = Inr (if b then ''true'' else ''false'')"
| "ToString (JNum x) = Inr (number_to_string x)"
| "ToString (JStr s) = Inr s"
| "ToString (JArr xs) =
     bindE (mapE (\<lambda>x. if x = JUndefined \<or> x = JNull then Inr [] else ToString x) xs)
       (\<lambda>ss. Inr (join '','' ss))"
| "ToString (JObj kvs) =
     (case own_property kvs ''toString'' of
        Some x \<Rightarrow> Inl TypeError
      | None \<Rightarrow> Inr ''[object Object]'')"

text \<open>\<open>Number(v)\<close>: an array or object is first converted to its text.\<close>

definition ToNumber :: "jsval \<Rightarrow> error + jsnum" where
  "ToNumber v =
     (case v of
        JUndefined \<Rightarrow> Inr NaN
      | JNull \<Rightarrow> Inr (Dec 0 0)
      | JBool b \<Rightarrow> Inr (if b then Dec 1 0 else Dec 0 0)
      | JNum x \<Rightarrow> Inr x
      | JStr s \<Rightarrow> Inr (StringToNumber s)
      | _ \<Rightarrow> bindE (ToString v) (\<lambda>s. Inr (StringToNumber s)))"

section \<open>Strict parsing: \<open>JSON.parse\<close>\<close>

text \<open>
  The JSON grammar (ECMA-404), by recursive descent.  A \<open>\u\<close> escape denotes the code
  unit of its four hexadecimal digits; one beyond 255 lies outside the strings of this
  model and is kept modulo 256.
\<close>

definition json_ws :: "char \<Rightarrow> bool" where
  "json_ws c = (c \<in> set [CHR 0x20, CHR 0x09, CHR 0x0A, CHR 0x0D])"

definition skip_ws :: "string \<Rightarrow> string" where
  "skip_ws s = dropWhile json_ws s"

definition is_hex :: "char \<Rightarrow> bool" where
  "is_hex c = (c \<in> set ''0123456789abcdefABCDEF'')"

definition is_control :: "char \<Rightarrow> bool" where
  "is_control c = ((of_char c :: nat) < 32)"

text \<open>The character that a two-character escape \<open>\e\<close> denotes.\<close>

definition simple_escape :: "char \<Rightarrow> char option" where
  "simple_escape e =
     map_of [(DQ, DQ), (BSL, BSL), (CHR ''/'', CHR ''/''), (CHR ''b'', BS), (CHR ''f'', FF),
             (CHR ''n'', LF), (CHR ''r'', CR), (CHR ''t'', TAB)] e"

text \<open>The characters of a string after its opening quote, up to the closing one.\<close>

fun json_string :: "string \<Rightarrow> string \<Rightarrow> (string \<times> string) option" where
  "json_string acc [] = None"
| "json_string acc [c] = (if c = DQ then Some (acc, []) else None)"
| "json_string acc (c # e # r) =
     (if c = DQ then Some (acc, e # r)
      else if c = BSL then
        (case simple_escape e of
           Some x \<Rightarrow> json_string (acc @ [x]) r
         | None \<Rightarrow>
             if e = CHR ''u'' \<and> length r \<ge> 4 \<and> list_all is_hex (take 4 r)
             then json_string (acc @ [char_of (nat_of_digits 16 (take 4 r))]) (drop 4 r)
             else None)
      else if is_control c then None
      else json_string (acc @ [c]) (e # r))"

text \<open>
  A number: \<open>-? (0 | [1-9][0-9]*) (. [0-9]+)? ([eE] [+-]? [0-9]+)?\<close>.  Each part returns
  what it read and the text left over.
\<close>

definition json_int :: "string \<Rightarrow> (string \<times> string) option" where
  "json_int s =
     (case s of
        [] \<Rightarrow> None
      | c # r \<Rightarrow>
          if c = CHR ''0'' then Some (''0'', r)
          else if is_digit c then Some (c # takeWhile is_digit r, dropWhile is_digit r)
          else None)"

definition json_frac :: "string \<Rightarrow> (string \<times> string) option" where
  "json_frac s =
     (case s of
        [] \<Rightarrow> Some ([], [])
      | c # r \<Rightarrow>
          if c = CHR ''.'' then
            (if takeWhile is_digit r = [] then None
             else Some (takeWhile is_digit r, dropWhile is_digit r))
          else Some ([], c # r))"

definition json_exp :: "string \<Rightarrow> (int \<times> string) option" where
  "json_exp s =
     (case s of
        [] \<Rightarrow> Some (0, [])
      | c # r \<Rightarrow>
          if c = CHR ''e'' \<or> c = CHR ''E'' then
            (let negative = (case r of d # r' \<Rightarrow> d = CHR ''-'' | [] \<Rightarrow> False);
                 signed = (case r of d # r' \<Rightarrow> d = CHR ''-'' \<or> d = CHR ''+'' | [] \<Rightarrow> False);
                 ds = (if signed then tl r else r)
             in if takeWhile is_digit ds = [] then None
                else Some ((if negative then - 1 else 1)
                             * int (nat_of_digits 10 (takeWhile is_digit ds)),
                           dropWhile is_digit ds))
          else Some (0, c # r))"

definition json_number :: "string \<Rightarrow> (jsnum \<times> string) option" where
  "json_number s =
     (let negative = (case s of c # r \<Rightarrow> c = CHR ''-'' | [] \<Rightarrow> False) in
      case json_int (if negative then tl s else s) of
        None \<Rightarrow> None
      | Some (ip, r1) \<Rightarrow>
          (case json_frac r1 of
             None \<Rightarrow> None
           | Some (fp, r2) \<Rightarrow>
               (case json_exp r2 of
                  None \<Rightarrow> None
                | Some (e, r3) \<Rightarrow>
                    Some (Dec ((if negative then - 1 else 1) * int (nat_of_digits 10 (ip @ fp)))
                            (e - int (length fp)),
                          r3))))"

datatype presult = POk jsval string | PFail

lemma json_string_shorter: "json_string acc s = Some (str, r) \<Longrightarrow> length r < length s"
proof (induction acc s rule: json_string.induct)
  case (1 acc)
  then show ?case by simp
next
  case (2 acc c)
  then show ?case by (simp split: if_splits)
next
  case (3 acc c e r')
  show ?case
  proof (cases "c = DQ")
    case True
    with "3.prems" show ?thesis by simp
  next
    case notq: False
    show ?thesis
    proof (cases "c = BSL")
      case True
      show ?thesis
      proof (cases "simple_escape e")
        case (Some x)
        with True notq "3.prems" have "json_string (acc @ [x]) r' = Some (str, r)" by simp
        with "3.IH"(2) [OF notq True Some] show ?thesis by simp
      next
        case None
        with True notq "3.prems"
        have u: "e = CHR ''u'' \<and> length r' \<ge> 4 \<and> list_all is_hex (take 4 r')"
          by (simp split: if_splits)
        with None True notq "3.prems"
        have "json_string (acc @ [char_of (nat_of_digits 16 (take 4 r'))]) (drop 4 r')
              = Some (str, r)" by simp
        with "3.IH"(1) [OF notq True None u] have "length r < length (drop 4 r')" .
        then show ?thesis by simp
      qed
    next
      case False
      with notq "3.prems" have "\<not> is_control c" and "json_string (acc @ [c]) (e # r') = Some (str, r)"
        by (simp_all split: if_splits)
      with "3.IH"(3) [OF notq False] show ?thesis by simp
    qed
  qed
qed

lemma json_int_shorter: "json_int s = Some (ds, r) \<Longrightarrow> length r < length s"
  by (cases s) (auto simp: json_int_def less_Suc_eq_le length_dropWhile_le split: if_splits)

lemma json_frac_shorter: "json_frac s = Some (ds, r) \<Longrightarrow> length r \<le> length s"
  by (cases s) (auto simp: json_frac_def le_SucI length_dropWhile_le split: if_splits)

lemma json_exp_shorter: "json_exp s = Some (e, r) \<Longrightarrow> length r \<le> length s"
proof (cases s)
  case Nil
  assume "json_exp s = Some (e, r)"
  with Nil show ?thesis by (simp add: json_exp_def)
next
  case (Cons c r0)
  assume a: "json_exp s = Some (e, r)"
  show ?thesis
  proof (cases "c = CHR ''e'' \<or> c = CHR ''E''")
    case False
    with a Cons show ?thesis by (auto simp: json_exp_def)
  next
    case True
    define ds where
      "ds = (if (case r0 of d # r' \<Rightarrow> d = CHR ''-'' \<or> d = CHR ''+'' | [] \<Rightarrow> False)
             then tl r0 else r0)"
    have "length ds \<le> length r0"
      unfolding ds_def by (cases r0) auto
    moreover from a Cons True have "r = dropWhile is_digit ds"
      unfolding json_exp_def Let_def ds_def by (simp split: if_splits)
    moreover have "length (dropWhile is_digit ds) \<le> length ds"
      by (rule length_dropWhile_le)
    ultimately show ?thesis using Cons by simp
  qed
qed

lemma json_number_shorter: "json_number s = Some (x, r) \<Longrightarrow> length r < length s"
proof -
  assume a: "json_number s = Some (x, r)"
  define s1 where "s1 = (if (case s of c # r \<Rightarrow> c = CHR ''-'' | [] \<Rightarrow> False) then tl s else s)"
  have s1: "length s1 \<le> length s"
    unfolding s1_def by (cases s) auto
  from a obtain ip r1 where i: "json_int s1 = Some (ip, r1)"
    unfolding json_number_def Let_def s1_def by (auto split: option.splits)
  with a obtain fp r2 where f: "json_frac r1 = Some (fp, r2)"
    unfolding json_number_def Let_def s1_def by (auto split: option.splits)
  with a i obtain e where "json_exp r2 = Some (e, r)"
    unfolding json_number_def Let_def s1_def by (auto split: option.splits)
  then have "length r \<le> length r2"
    by (rule json_exp_shorter)
  with json_int_shorter [OF i] json_frac_shorter [OF f] s1 show ?thesis
    by linarith
qed

lemma skip_ws_length: "length (skip_ws s) \<le> length s"
  by (simp add: skip_ws_def length_dropWhile_le)

text \<open>
  A value, the elements of an array after \<open>[\<close>, and the members of an object after \<open>{\<close>;
  each starts at a character that is not white space and returns the text left over.
  The comparisons of lengths before the two recursive calls are always true (the text
  left over by a value is shorter than the text it was read from); they are what makes
  the recursion well founded.
\<close>

function parse_value :: "string \<Rightarrow> presult"
  and parse_elements :: "jsval list \<Rightarrow> string \<Rightarrow> presult"
  and parse_members :: "(string \<times> jsval) list \<Rightarrow> string \<Rightarrow> presult"
where
  "parse_value [] = PFail"
| "parse_value (c # r) =
     (if c = CHR ''{'' then
        (case skip_ws r of
           [] \<Rightarrow> PFail
         | d # r' \<Rightarrow> if d = CHR ''}'' then POk (JObj []) r' else parse_members [] (d # r'))
      else if c = CHR ''['' then
        (case skip_ws r of
           [] \<Rightarrow> PFail
         | d # r' \<Rightarrow> if d = CHR '']'' then POk (JArr []) r' else parse_elements [] (d # r'))
      else if c = DQ then
        (case json_string [] r of Some (str, r') \<Rightarrow> POk (JStr str) r' | None \<Rightarrow> PFail)
      else if startsWith (c # r) ''true'' then POk (JBool True) (drop 4 (c # r))
      else if startsWith (c # r) ''false'' then POk (JBool False) (drop 5 (c # r))
      else if startsWith (c # r) ''null'' then POk JNull (drop 4 (c # r))
      else (case json_number (c # r) of Some (x, r') \<Rightarrow> POk (JNum x) r' | None \<Rightarrow> PFail))"
| "parse_elements acc [] = PFail"
| "parse_elements acc (c # s) =
     (case parse_value (c # s) of
        PFail \<Rightarrow> PFail
      | POk v r \<Rightarrow>
          (case skip_ws r of
             [] \<Rightarrow> PFail
           | d # r' \<Rightarrow>
               if d = CHR '','' then
                 (if length r' < length (c # s) then parse_elements (acc @ [v]) (skip_ws r')
                  else PFail)
               else if d = CHR '']'' then POk (JArr (acc @ [v])) r'
               else PFail))"
| "parse_members acc [] = PFail"
| "parse_members acc (c # r) =
     (if c \<noteq> DQ then PFail
      else
        (case json_string [] r of
           None \<Rightarrow> PFail
         | Some (k, r1) \<Rightarrow>
             (case skip_ws r1 of
                [] \<Rightarrow> PFail
              | d # r2 \<Rightarrow>
                  if d \<noteq> CHR '':'' then PFail
                  else
                    (case parse_value (skip_ws r2) of
                       PFail \<Rightarrow> PFail
                     | POk v r3 \<Rightarrow>
                         (case skip_ws r3 of
                            [] \<Rightarrow> PFail
                          | d' # r4 \<Rightarrow>
                              if d' = CHR '','' then
                                (if length r4 < length (c # r)
                                 then parse_members (acc @ [(k, v)]) (skip_ws r4)
                                 else PFail)
                              else if d' = CHR ''}'' then POk (JObj (acc @ [(k, v)])) r4
                              else PFail)))))"
  by pat_completeness auto

termination
proof (relation "measure (\<lambda>x. case x of
          Inl s \<Rightarrow> 2 * length s
        | Inr (Inl (acc, s)) \<Rightarrow> 2 * length s + 1
        | Inr (Inr (acc, s)) \<Rightarrow> 2 * length s + 1)", goal_cases)
  case 1
  show ?case by simp
next
  case (2 c r d r')
  have "length (skip_ws r) \<le> length r" by (rule skip_ws_length)
  with 2 show ?case by simp
next
  case (3 c r d r')
  have "length (skip_ws r) \<le> length r" by (rule skip_ws_length)
  with 3 show ?case by simp
next
  case (4 acc c s)
  show ?case by simp
next
  case (5 acc c s v r d r')
  have "length (skip_ws r') \<le> length r'" by (rule skip_ws_length)
  with 5 show ?case by simp
next
  case (6 acc c r x k r1 d r2)
  have "length (skip_ws r2) \<le> length r2" by (rule skip_ws_length)
  moreover have "length r2 < length (skip_ws r1)" using 6 by simp
  moreover have "length (skip_ws r1) \<le> length r1" by (rule skip_ws_length)
  moreover have "length r1 < length r" using 6 json_string_shorter by blast
  ultimately show ?case by simp
next
  case (7 acc c r x k r1 d r2 v r3 d' r4)
  have "length (skip_ws r4) \<le> length r4" by (rule skip_ws_length)
  with 7 show ?case by simp
qed

text \<open>\<open>JSON.parse(text)\<close>: one value, white space around it, and nothing else.\<close>

definition JSON_parse :: "string \<Rightarrow> error + jsval" where
  "JSON_parse text0 =
     (case parse_value (skip_ws text0) of
        PFail \<Rightarrow> Inl SyntaxError
      | POk v r \<Rightarrow> if skip_ws r = [] then Inr v else Inl SyntaxError)"

section \<open>Regular expressions\<close>

text \<open>
  The regular expressions of the program are matched by backtracking, as ECMAScript
  specifies: \<open>rmatch\<close> lists the ways in which an expression can match at a position, in
  the order in which backtracking tries them, so that the head of the list is the match
  that is found.  A position is the character just before it (if any), the text from it on,
  and the captures made so far.
\<close>

datatype regex =
    Eps
  | Cls "char \<Rightarrow> bool"
  | Seq regex regex
  | Alt regex regex
  | Star regex
  | Lazy regex
  | Group nat regex
  | Ahead regex
  | Bol
  | Bos
  | Eos
  | WordB

type_synonym captures = "(nat \<times> string) list"
type_synonym mstate = "char option \<times> string \<times> captures"

definition is_word_char :: "char \<Rightarrow> bool" where
  "is_word_char c =
     (c \<in> set ''abcdefghijklmnopqrstuvwxyzABCDEFGHIJKLMNOPQRSTUVWXYZ0123456789_'')"

definition is_line_terminator :: "char \<Rightarrow> bool" where
  "is_line_terminator c = (c = LF \<or> c = CR)"

text \<open>
  \<open>Star\<close> is the greedy \<open>r*\<close> and \<open>Lazy\<close> is \<open>r*?\<close>; an iteration that consumes nothing is
  rejected.  \<open>Group n\<close> is the \<open>n\<close>-th capturing group, \<open>Ahead\<close> the lookahead \<open>(?=r)\<close>,
  \<open>Bol\<close> is \<open>^\<close> under the flag \<open>m\<close>, \<open>Bos\<close> and \<open>Eos\<close> are \<open>^\<close> and \<open>$\<close> without it,
  and \<open>WordB\<close> is the word boundary \<open>\b\<close>.
\<close>

function rmatch :: "regex \<Rightarrow> mstate \<Rightarrow> mstate list" where
  "rmatch Eps (p, r, caps) = [(p, r, caps)]"
| "rmatch (Cls f) (p, [], caps) = []"
| "rmatch (Cls f) (p, x # xs, caps) = (if f x then [(Some x, xs, caps)] else [])"
| "rmatch (Seq a b) (p, r, caps) = concat (map (rmatch b) (rmatch a (p, r, caps)))"
| "rmatch (Alt a b) (p, r, caps) = rmatch a (p, r, caps) @ rmatch b (p, r, caps)"
| "rmatch (Star a) (p, r, caps) =
     concat (map (\<lambda>(p', r', caps').
                    if length r' < length r then rmatch (Star a) (p', r', caps') else [])
              (rmatch a (p, r, caps)))
     @ [(p, r, caps)]"
| "rmatch (Lazy a) (p, r, caps) =
     (p, r, caps) #
     concat (map (\<lambda>(p', r', caps').
                    if length r' < length r then rmatch (Lazy a) (p', r', caps') else [])
              (rmatch a (p, r, caps)))"
| "rmatch (Group n a) (p, r, caps) =
     map (\<lambda>(p', r', caps'). (p', r', (n, take (length r - length r') r) # caps'))
       (rmatch a (p, r, caps))"
| "rmatch (Ahead a) (p, r, caps) = (if rmatch a (p, r, caps) = [] then [] else [(p, r, caps)])"
| "rmatch Bol (None, r, caps) = [(None, r, caps)]"
| "rmatch Bol (Some c, r, caps) = (if is_line_terminator c then [(Some c, r, caps)] else [])"
| "rmatch Bos (p, r, caps) = (if p = None then [(p, r, caps)] else [])"
| "rmatch Eos (p, r, caps) = (if r = [] then [(p, r, caps)] else [])"
| "rmatch WordB (p, r, caps) =
     (if (case p of None \<Rightarrow> False | Some c \<Rightarrow> is_word_char c)
         \<noteq> (case r of [] \<Rightarrow> False | x # xs \<Rightarrow> is_word_char x)
      then [(p, r, caps)] else [])"
  by pat_completeness auto

termination
  by (relation "measures [\<lambda>(re, p, r, caps). size re, \<lambda>(re, p, r, caps). length r]") auto

text \<open>The expression for a literal text, \<open>r+\<close>, and a sequence of expressions.\<close>

definition lit :: "string \<Rightarrow> regex" where
  "lit s = foldr (\<lambda>c r. Seq (Cls (\<lambda>x. x = c)) r) s Eps"

definition Plus :: "regex \<Rightarrow> regex" where
  "Plus a = Seq a (Star a)"

definition seqs :: "regex list \<Rightarrow> regex" where
  "seqs rs = foldr Seq rs Eps"

definition group :: "nat \<Rightarrow> captures \<Rightarrow> string" where
  "group n caps = (case map_of caps n of Some s \<Rightarrow> s | None \<Rightarrow> [])"

text \<open>
  \<open>text.replace(re, f)\<close> for \<open>re\<close> with the flag \<open>g\<close>: every match, left to right, is
  replaced by \<open>f\<close> of the matched text and its captures.  After an empty match the search
  resumes one character further.  The first argument of the recursion is the character
  before the current position.
\<close>

function replace_all ::
  "regex \<Rightarrow> (string \<Rightarrow> captures \<Rightarrow> string) \<Rightarrow> char option \<Rightarrow> string \<Rightarrow> string" where
  "replace_all re f p [] =
     (case rmatch re (p, [], []) of [] \<Rightarrow> [] | (p', r', caps) # ms \<Rightarrow> f [] caps)"
| "replace_all re f p (x # xs) =
     (case rmatch re (p, x # xs, []) of
        [] \<Rightarrow> x # replace_all re f (Some x) xs
      | (p', r', caps) # ms \<Rightarrow>
          if length r' < length (x # xs)
          then f (take (length (x # xs) - length r') (x # xs)) caps @ replace_all re f p' r'
          else f [] caps @ x # replace_all re f (Some x) xs)"
  by pat_completeness auto

termination
  by (relation "measure (\<lambda>(re, f, p, r). length r)") auto

text \<open>The same without the flag \<open>g\<close>: only the first match is replaced.\<close>

fun replace_first ::
  "regex \<Rightarrow> (string \<Rightarrow> captures \<Rightarrow> string) \<Rightarrow> char option \<Rightarrow> string \<Rightarrow> string" where
  "replace_first re f p [] =
     (case rmatch re (p, [], []) of [] \<Rightarrow> [] | (p', r', caps) # ms \<Rightarrow> f [] caps)"
| "replace_first re f p (x # xs) =
     (case rmatch re (p, x # xs, []) of
        [] \<Rightarrow> x # replace_first re f (Some x) xs
      | (p', r', caps) # ms \<Rightarrow>
          f (take (length (x # xs) - length r') (x # xs)) caps @ r')"

text \<open>
  \<open>text.match(re)\<close> without the flag \<open>g\<close>: the index of the first match, the matched
  text and its captures.
\<close>

fun match_from :: "regex \<Rightarrow> nat \<Rightarrow> char option \<Rightarrow> string \<Rightarrow> (nat \<times> string \<times> captures) option" where
  "match_from re i p [] =
     (case rmatch re (p, [], []) of [] \<Rightarrow> None | (p', r', caps) # ms \<Rightarrow> Some (i, [], caps))"
| "match_from re i p (x # xs) =
     (case rmatch re (p, x # xs, []) of
        [] \<Rightarrow> match_from re (i + 1) (Some x) xs
      | (p', r', caps) # ms \<Rightarrow> Some (i, take (length (x # xs) - length r') (x # xs), caps))"

definition js_match :: "regex \<Rightarrow> string \<Rightarrow> (nat \<times> string \<times> captures) option" where
  "js_match re s = match_from re 0 None s"

section \<open>Response normalizer\<close>

text \<open>\<open>cleanJsonResponse\<close>: the three assignments to \<open>trimmed\<close>, in order.\<close>

definition cleanJsonResponse :: "string \<Rightarrow> string" where
  "cleanJsonResponse content =
    (let trimmed0 = trim content;
         trimmed1 =
           (if startsWith trimmed0 ''```json'' then trim (slice_from 7 trimmed0)
            else if startsWith trimmed0 ''```'' then trim (slice_from 3 trimmed0)
            else trimmed0);
         trimmed2 =
           (if endsWith trimmed1 ''```'' then trim (slice_to_end_minus 3 trimmed1)
            else trimmed1)
     in trimmed2)"

section \<open>Escape repair engine\<close>

fun js_includes :: "string \<Rightarrow> string \<Rightarrow> bool" where
  "js_includes [] sub = (sub = [])"
| "js_includes (x # xs) sub = (startsWith (x # xs) sub \<or> js_includes xs sub)"

text \<open>\<open>s.indexOf(c)\<close> and \<open>s.lastIndexOf(c)\<close> for a character; \<open>None\<close> stands for -1.\<close>

fun indexOf :: "string \<Rightarrow> char \<Rightarrow> nat option" where
  "indexOf [] c = None"
| "indexOf (x # xs) c =
     (if x = c then Some 0 else (case indexOf xs c of None \<Rightarrow> None | Some i \<Rightarrow> Some (i + 1)))"

definition lastIndexOf :: "string \<Rightarrow> char \<Rightarrow> nat option" where
  "lastIndexOf s c =
     (case indexOf (rev s) c of None \<Rightarrow> None | Some i \<Rightarrow> Some (length s - 1 - i))"

text \<open>
  The chain of seven replacements applied to the text of a field.  The last one is written
  \<open>/\b/g\<close> in the source: in a regular expression \<open>\b\<close> is the word boundary, so the
  two characters \<open>\b\<close> are inserted at every word boundary.
\<close>

definition escape_content :: "string \<Rightarrow> string" where
  "escape_content content =
     (let c1 = replace_all (lit [BSL]) (\<lambda>m caps. [BSL, BSL]) None content;
          c2 = replace_all (lit [DQ]) (\<lambda>m caps. [BSL, DQ]) None c1;
          c3 = replace_all (lit [LF]) (\<lambda>m caps. [BSL, CHR ''n'']) None c2;
          c4 = replace_all (lit [CR]) (\<lambda>m caps. [BSL, CHR ''r'']) None c3;
          c5 = replace_all (lit [TAB]) (\<lambda>m caps. [BSL, CHR ''t'']) None c4;
          c6 = replace_all (lit [FF]) (\<lambda>m caps. [BSL, CHR ''f'']) None c5;
          c7 = replace_all WordB (\<lambda>m caps. [BSL, CHR ''b'']) None c6
      in c7)"

definition any_char :: regex where
  "any_char = Cls (\<lambda>c. True)"

definition dot :: regex where
  "dot = Cls (\<lambda>c. \<not> is_line_terminator c)"

definition spaces :: regex where
  "spaces = Star (Cls is_space)"

definition not_char :: "char \<Rightarrow> regex" where
  "not_char q = Cls (\<lambda>c. c \<noteq> q)"

text \<open>\<open>/"content":\s*`([^`]*(?:\\.[^`]*)*)`/gs\<close>\<close>

definition backtick_content_re :: regex where
  "backtick_content_re =
     seqs [lit ''\"content\":'', spaces, lit ''`'',
           Group 1 (Seq (Star (not_char BTICK))
                        (Star (seqs [lit [BSL], any_char, Star (not_char BTICK)]))),
           lit ''`'']"

text \<open>\<open>/"(\w+)":\s*`([^`]*(?:\\.[^`]*)*)`/gs\<close>\<close>

definition backtick_field_re :: regex where
  "backtick_field_re =
     seqs [lit ''\"'', Group 1 (Plus (Cls is_word_char)), lit ''\":'', spaces, lit ''`'',
           Group 2 (Seq (Star (not_char BTICK))
                        (Star (seqs [lit [BSL], any_char, Star (not_char BTICK)]))),
           lit ''`'']"

text \<open>\<open>/"content":\s*"([^"]*(?:\\.[^"]*)*)"/\<close> and the same for \<open>answer\<close>.\<close>

definition quoted_field_re :: "string \<Rightarrow> regex" where
  "quoted_field_re name =
     seqs [lit ([DQ] @ name @ ''\":''), spaces, lit ''\"'',
           Group 1 (Seq (Star (not_char DQ))
                        (Star (seqs [lit [BSL], dot, Star (not_char DQ)]))),
           lit ''\"'']"

text \<open>\<open>/"content":\s*"([^"]*)"/g\<close>\<close>

definition plain_content_re :: regex where
  "plain_content_re =
     seqs [lit ''\"content\":'', spaces, lit ''\"'', Group 1 (Star (not_char DQ)), lit ''\"'']"

text \<open>\<open>/^[\s*-]+/gm\<close>\<close>

definition list_marker_re :: regex where
  "list_marker_re = Seq Bol (Plus (Cls (\<lambda>c. is_space c \<or> c = CHR ''*'' \<or> c = CHR ''-'')))"

text \<open>\<open>/.*"[^"]+"\s*:\s*(?:"[^"]*"|[^,}]+)(?=\s*[,}])/s\<close>\<close>

definition last_complete_field_re :: regex where
  "last_complete_field_re =
     seqs [Star any_char, lit ''\"'', Plus (not_char DQ), lit ''\"'', spaces, lit '':'', spaces,
           Alt (seqs [lit ''\"'', Star (not_char DQ), lit ''\"''])
               (Plus (Cls (\<lambda>c. c \<noteq> CHR '','' \<and> c \<noteq> CHR ''}''))),
           Ahead (Seq spaces (Cls (\<lambda>c. c = CHR '','' \<or> c = CHR ''}'')))]"

text \<open>
  The callback of the third and fourth replacement: a field whose text already contains
  an escaped line feed or an escaped quote is left as matched, any other is escaped.
\<close>

definition escape_unless_escaped :: "string \<Rightarrow> string \<Rightarrow> captures \<Rightarrow> string" where
  "escape_unless_escaped name m caps =
     (let content = group 1 caps in
      if js_includes content [BSL, CHR ''n''] \<or> js_includes content [BSL, DQ] then m
      else [DQ] @ name @ ''\": \"'' @ escape_content content @ ''\"'')"

text \<open>The closing of a truncated text: the last statement of the \<open>catch\<close> branch.\<close>

definition close_truncated :: "string \<Rightarrow> string" where
  "close_truncated fixed =
     (if \<not> endsWith (trim fixed) ''}'' \<and> \<not> endsWith (trim fixed) '']'' then
        (case js_match last_complete_field_re fixed of
           Some (index, m, caps) \<Rightarrow> take (index + length m) fixed @ ''}''
         | None \<Rightarrow>
             (case indexOf fixed (CHR ''{'') of
                None \<Rightarrow> fixed
              | Some openBraceIndex \<Rightarrow>
                  let cutIndex =
                        (case lastIndexOf fixed (CHR '','') of
                           None \<Rightarrow> openBraceIndex + 1
                         | Some lastCommaIndex \<Rightarrow>
                             if lastCommaIndex > openBraceIndex then lastCommaIndex
                             else openBraceIndex + 1)
                  in take cutIndex fixed @ ''}''))
      else fixed)"

text \<open>
  \<open>fixJsonEscaping\<close>: the text is returned as it is when it parses; otherwise the five
  replacements are applied in order and a truncated text is closed.
\<close>

definition fixJsonEscaping :: "string \<Rightarrow> string" where
  "fixJsonEscaping jsonString =
     (case JSON_parse jsonString of
        Inr v \<Rightarrow> jsonString
      | Inl err \<Rightarrow>
          let fixed1 = replace_all backtick_content_re
                (\<lambda>m caps. ''\"content\": \"'' @ escape_content (group 1 caps) @ ''\"'')
                None jsonString;
              fixed2 = replace_all backtick_field_re
                (\<lambda>m caps. ''\"'' @ group 1 caps @ ''\": \"'' @ escape_content (group 2 caps) @ ''\"'')
                None fixed1;
              fixed3 = replace_first (quoted_field_re ''content'')
                (escape_unless_escaped ''content'') None fixed2;
              fixed4 = replace_first (quoted_field_re ''answer'')
                (escape_unless_escaped ''answer'') None fixed3;
              fixed5 = replace_all plain_content_re
                (\<lambda>m caps. ''\"content\": \"''
                    @ replace_all list_marker_re (\<lambda>m' caps'. []) None (group 1 caps) @ ''\"'')
                None fixed4
          in close_truncated fixed5)"

section \<open>Fallback extraction\<close>

text \<open>\<open>s.split(',')\<close>\<close>

fun split_from :: "char \<Rightarrow> string \<Rightarrow> string \<Rightarrow> string list" where
  "split_from c cur [] = [cur]"
| "split_from c cur (x # xs) =
     (if x = c then cur # split_from c [] xs else split_from c (cur @ [x]) xs)"

definition split_on :: "char \<Rightarrow> string \<Rightarrow> string list" where
  "split_on c s = split_from c [] s"

text \<open>\<open>/"content":\s*[`"]([^`"]*(?:\\.[^`"]*)*)[`"]/s\<close>\<close>

definition either_quote :: "char \<Rightarrow> bool" where
  "either_quote c = (c = BTICK \<or> c = DQ)"

definition extract_content_re :: regex where
  "extract_content_re =
     seqs [lit ''\"content\":'', spaces, Cls either_quote,
           Group 1 (Seq (Star (Cls (\<lambda>c. \<not> either_quote c)))
                        (Star (seqs [lit [BSL], any_char, Star (Cls (\<lambda>c. \<not> either_quote c))]))),
           Cls either_quote]"

text \<open>\<open>/"name":\s*\[(.*?)\]/s\<close>\<close>

definition extract_array_re :: "string \<Rightarrow> regex" where
  "extract_array_re name =
     seqs [lit ([DQ] @ name @ ''\":''), spaces, lit ''['', Group 1 (Lazy any_char), lit '']'']"

text \<open>\<open>/^["']|["']$/g\<close>\<close>

definition wrapping_quote_re :: regex where
  "wrapping_quote_re =
     Alt (Seq Bos (Cls (\<lambda>c. c = DQ \<or> c = CHR 0x27)))
         (Seq (Cls (\<lambda>c. c = DQ \<or> c = CHR 0x27)) Eos)"

text \<open>\<open>extractArray\<close>: the argument is the captured text, or \<open>None\<close> for \<open>null\<close>.\<close>

definition extractArray :: "string option \<Rightarrow> string list" where
  "extractArray m =
     (case m of
        None \<Rightarrow> []
      | Some text0 \<Rightarrow>
          if text0 = [] then []
          else filter (\<lambda>item. item \<noteq> [])
                 (map (\<lambda>item. replace_all wrapping_quote_re (\<lambda>m' caps. []) None (trim item))
                    (split_on (CHR '','') text0)))"

definition captured :: "(nat \<times> string \<times> captures) option \<Rightarrow> string option" where
  "captured m = (case m of None \<Rightarrow> None | Some (i, whole, caps) \<Rightarrow> Some (group 1 caps))"

definition extractContentFromResponse :: "string \<Rightarrow> jsval" where
  "extractContentFromResponse response =
     (let contentMatch = js_match extract_content_re response;
          keyPointsMatch = js_match (extract_array_re ''keyPoints'') response;
          examplesMatch = js_match (extract_array_re ''examples'') response;
          practicalMatch = js_match (extract_array_re ''practicalApplications'') response
      in JObj
          [(''content'',
              JStr (case captured contentMatch of
                      Some c \<Rightarrow>
                        replace_all (lit [BSL, DQ]) (\<lambda>m caps. [DQ]) None
                          (replace_all (lit [BSL, CHR ''n'']) (\<lambda>m caps. [LF]) None c)
                    | None \<Rightarrow> ''Content could not be extracted from the response.'')),
           (''keyPoints'', JArr (map JStr (extractArray (captured keyPointsMatch)))),
           (''examples'', JArr (map JStr (extractArray (captured examplesMatch)))),
           (''practicalApplications'', JArr (map JStr (extractArray (captured practicalMatch))))])"

section \<open>Generation orchestrator\<close>

text \<open>
  The module-wide client \<open>groq\<close> is \<open>None\<close> when no credentials are configured.  The
  one remote call of an operation is represented by its outcome: the call is rejected, or
  it resolves to a completion whose first choice has a text or has none.  The prompt is
  not modelled: nothing an operation returns depends on it but through this outcome.
\<close>

datatype groq_outcome = Rejected | Completion "string option"

type_synonym groq_client = "groq_outcome option"

text \<open>
  \<open>await groq.chat.completions.create(...)\<close>, \<open>completion.choices[0]?.message?.content\<close>
  and \<open>if (!response) throw new Error(...)\<close>.
\<close>

definition response_content :: "groq_outcome \<Rightarrow> error + string" where
  "response_content outcome =
     (case outcome of
        Rejected \<Rightarrow> Inl TransportError
      | Completion None \<Rightarrow> Inl (Error ''No response from Groq API'')
      | Completion (Some content) \<Rightarrow>
          if content = [] then Inl (Error ''No response from Groq API'') else Inr content)"

text \<open>
  Names are resolved in the scope of the block that reads them.  \<open>typeof x\<close> of a name
  that is not declared there is \<open>undefined\<close>; reading such a name throws a
  \<open>ReferenceError\<close>.
\<close>

type_synonym scope = "(string \<times> jsval) list"

definition typeof :: "jsval \<Rightarrow> string" where
  "typeof v =
     (case v of
        JUndefined \<Rightarrow> ''undefined''
      | JNull \<Rightarrow> ''object''
      | JBool b \<Rightarrow> ''boolean''
      | JNum x \<Rightarrow> ''number''
      | JStr s \<Rightarrow> ''string''
      | JArr xs \<Rightarrow> ''object''
      | JObj kvs \<Rightarrow> ''object'')"

definition typeof_name :: "scope \<Rightarrow> string \<Rightarrow> string" where
  "typeof_name sc x = (case map_of sc x of None \<Rightarrow> ''undefined'' | Some v \<Rightarrow> typeof v)"

definition read_name :: "scope \<Rightarrow> string \<Rightarrow> error + jsval" where
  "read_name sc x = (case map_of sc x of None \<Rightarrow> Inl (ReferenceError x) | Some v \<Rightarrow> Inr v)"

definition field :: "jsval \<Rightarrow> string \<Rightarrow> jsval" where
  "field v k = (case get_prop v k of Inr x \<Rightarrow> x | Inl e \<Rightarrow> JUndefined)"

subsection \<open>Learning plan\<close>

definition int_to_string :: "int \<Rightarrow> string" where
  "int_to_string i = number_to_string (Dec i 0)"

definition fallback_day :: "string \<Rightarrow> int \<Rightarrow> jsval" where
  "fallback_day topic i =
     JObj [(''day'', JNum (Dec i 0)),
           (''title'', JStr (''Day '' @ int_to_string i @ '': Introduction to '' @ topic)),
           (''subtopics'',
              JArr [JStr (''Basic concepts of '' @ topic),
                    JStr (''Getting started with '' @ topic),
                    JStr ''Practical applications'']),
           (''explanations'',
              JArr [JStr (''Learn the fundamental concepts and principles of '' @ topic @ ''.''),
                    JStr ''Set up your development environment and create your first project.'',
                    JStr ''Explore real-world applications and use cases.''])]"

text \<open>
  \<open>createFallbackLearningPlan\<close>: the loop \<open>for (let i = 1; i <= Math.min(durationDays, 7); i++)\<close>,
  for a whole number of days.
\<close>

definition createFallbackLearningPlan :: "string \<Rightarrow> int \<Rightarrow> jsval" where
  "createFallbackLearningPlan topic durationDays =
     JObj [(''days'', JArr (map (fallback_day topic) [1 .. min durationDays 7]))]"

definition generateLearningPlan ::
  "groq_client \<Rightarrow> string \<Rightarrow> int \<Rightarrow> string \<Rightarrow> string \<Rightarrow> error + jsval" where
  "generateLearningPlan groq topic durationDays level dailyTime =
     (case groq of
        None \<Rightarrow> Inr (createFallbackLearningPlan topic durationDays)
      | Some outcome \<Rightarrow>
          (case bindE (response_content outcome)
                  (\<lambda>content. JSON_parse (cleanJsonResponse content)) of
             Inr plan \<Rightarrow> Inr plan
           | Inl err \<Rightarrow> Inr (createFallbackLearningPlan topic durationDays)))"

subsection \<open>Detailed content\<close>

text \<open>
  The coercions of a field: \<open>String(obj.k || d)\<close>; \<open>Array.isArray(v) ? v.filter(Boolean) : []\<close>;
  \<open>Array.isArray(v) ? v.map(String) : []\<close>; and \<open>Array.isArray(v) ? v : []\<close>.
\<close>

definition string_or :: "jsval \<Rightarrow> string \<Rightarrow> string \<Rightarrow> error + jsval" where
  "string_or obj k d =
     bindE (get_prop obj k) (\<lambda>v. bindE (ToString (or_else v (JStr d))) (\<lambda>s. Inr (JStr s)))"

definition truthy_elements :: "jsval \<Rightarrow> jsval" where
  "truthy_elements v = (case v of JArr xs \<Rightarrow> JArr (filter truthy xs) | _ \<Rightarrow> JArr [])"

definition string_elements :: "jsval \<Rightarrow> error + jsval" where
  "string_elements v =
     (case v of
        JArr xs \<Rightarrow> bindE (mapE ToString xs) (\<lambda>ss. Inr (JArr (map JStr ss)))
      | _ \<Rightarrow> Inr (JArr []))"

definition array_or_empty :: "jsval \<Rightarrow> jsval" where
  "array_or_empty v = (case v of JArr xs \<Rightarrow> JArr xs | _ \<Rightarrow> JArr [])"

text \<open>The object that the \<open>try\<close> block of \<open>getDetailedSubtopicContent\<close> returns.\<close>

definition coerce_detailed :: "jsval \<Rightarrow> error + jsval" where
  "coerce_detailed parsed =
     bindE (string_or parsed ''content'' ''Content not available'') (\<lambda>content.
     bindE (get_prop parsed ''keyPoints'') (\<lambda>keyPoints.
     bindE (get_prop parsed ''examples'') (\<lambda>examples.
     bindE (get_prop parsed ''practicalApplications'') (\<lambda>practicalApplications.
       Inr (JObj [(''content'', content),
                  (''keyPoints'', truthy_elements keyPoints),
                  (''examples'', truthy_elements examples),
                  (''practicalApplications'', truthy_elements practicalApplications)])))))"

definition parse_response :: "groq_outcome \<Rightarrow> error + jsval" where
  "parse_response outcome =
     bindE (response_content outcome) (\<lambda>response.
       JSON_parse (fixJsonEscaping (cleanJsonResponse response)))"

definition empty_extraction :: jsval where
  "empty_extraction =
     JObj [(''content'', JStr []), (''keyPoints'', JArr []), (''examples'', JArr []),
           (''practicalApplications'', JArr [])]"

text \<open>
  \<open>getDetailedSubtopicContent\<close>.  The \<open>catch\<close> block tests \<open>typeof response\<close>, but
  \<open>response\<close> is declared with \<open>const\<close> inside the \<open>try\<close> block: the scope of the
  \<open>catch\<close> block holds the parameters of the function and no such name.
\<close>

definition getDetailedSubtopicContent ::
  "groq_client \<Rightarrow> string \<Rightarrow> string \<Rightarrow> string \<Rightarrow> string \<Rightarrow> error + jsval" where
  "getDetailedSubtopicContent groq topic dayTitle subtopic level =
     (case groq of
        None \<Rightarrow>
          Inr (JObj
            [(''content'',
                JStr (''# '' @ subtopic @ [LF, LF] @ ''This is a detailed explanation of '' @ subtopic
                  @ '' in the context of '' @ topic
                  @ ''. The content would normally be generated by AI, but the API is not currently available.'')),
             (''keyPoints'',
                JArr [JStr (''Key concept 1 about '' @ subtopic),
                      JStr (''Key concept 2 about '' @ subtopic)]),
             (''examples'',
                JArr [JStr (''Example 1 for '' @ subtopic), JStr (''Example 2 for '' @ subtopic)]),
             (''practicalApplications'',
                JArr [JStr (''Application 1 of '' @ subtopic),
                      JStr (''Application 2 of '' @ subtopic)])])
      | Some outcome \<Rightarrow>
          (case bindE (parse_response outcome) coerce_detailed of
             Inr result \<Rightarrow> Inr result
           | Inl err \<Rightarrow>
               let catch_scope =
                     [(''topic'', JStr topic), (''dayTitle'', JStr dayTitle),
                      (''subtopic'', JStr subtopic), (''level'', JStr level)];
                   fallbackContent =
                     (if typeof_name catch_scope ''response'' = ''string'' then
                        (case read_name catch_scope ''response'' of
                           Inr (JStr response) \<Rightarrow> extractContentFromResponse response
                         | _ \<Rightarrow> empty_extraction)
                      else empty_extraction)
               in Inr (JObj
                    [(''content'',
                        or_else (field fallbackContent ''content'')
                          (JStr ''Content could not be extracted from the response.'')),
                     (''keyPoints'', field fallbackContent ''keyPoints''),
                     (''examples'', field fallbackContent ''examples''),
                     (''practicalApplications'', field fallbackContent ''practicalApplications'')])))"

subsection \<open>Quiz questions\<close>







subsection \<open>Grading\<close>

definition coerce_grading :: "jsval \<Rightarrow> error + jsval" where
  "coerce_grading parsed =
     bindE (get_prop parsed ''score'') (\<lambda>s.
     bindE (ToNumber s) (\<lambda>n.
     bindE (string_or parsed ''feedback'' ''No feedback available'') (\<lambda>feedback.
     bindE (get_prop parsed ''strengths'') (\<lambda>st.
     bindE (string_elements st) (\<lambda>strengths.
     bindE (get_prop parsed ''improvements'') (\<lambda>im.
     bindE (string_elements im) (\<lambda>improvements.
       Inr (JObj
         [(''score'',
             JNum (Math_max (Dec 0 0)
                     (Math_min (Dec 10 0) (if truthy (JNum n) then n else Dec 0 0)))),
          (''feedback'', feedback),
          (''strengths'', strengths),
          (''improvements'', improvements)]))))))))"

text \<open>The grade computed locally, from the length of the answer.\<close>

definition fallback_grading :: "string \<Rightarrow> jsval" where
  "fallback_grading userAnswer =
     (let score = (if length userAnswer > 50 then 7 else 5 :: int) in
      JObj
        [(''score'', JNum (Dec score 0)),
         (''feedback'',
            JStr (''Your answer shows '' @ (if score \<ge> 7 then ''good'' else ''basic'')
                  @ '' understanding. Consider elaborating more on the key concepts.'')),
         (''strengths'', JArr [JStr ''Attempted to answer the question'']),
         (''improvements'',
            JArr [JStr ''Provide more detailed explanations'',
                  JStr ''Include specific examples''])])"

definition gradeTheoryAnswer ::
  "groq_client \<Rightarrow> string \<Rightarrow> string \<Rightarrow> string \<Rightarrow> string list \<Rightarrow> error + jsval" where
  "gradeTheoryAnswer groq question userAnswer correctAnswer keyPoints =
     (case groq of
        None \<Rightarrow> Inr (fallback_grading userAnswer)
      | Some outcome \<Rightarrow>
          (case bindE (parse_response outcome) coerce_grading of
             Inr result \<Rightarrow> Inr result
           | Inl err \<Rightarrow> Inr (fallback_grading userAnswer)))"

subsection \<open>Tutor\<close>

definition coerce_tutor :: "jsval \<Rightarrow> error + jsval" where
  "coerce_tutor parsed =
     bindE (string_or parsed ''answer'' []) (\<lambda>answer.
     bindE (get_prop parsed ''codeExamples'') (\<lambda>codeExamples.
     bindE (get_prop parsed ''relatedConcepts'') (\<lambda>relatedConcepts.
     bindE (get_prop parsed ''furtherReading'') (\<lambda>furtherReading.
       Inr (JObj [(''answer'', answer),
                  (''codeExamples'', array_or_empty codeExamples),
                  (''relatedConcepts'', array_or_empty relatedConcepts),
                  (''furtherReading'', array_or_empty furtherReading)])))))"

text \<open>
  \<open>askTutorQuestion\<close>.  The \<open>catch\<close> block reads \<open>completion\<close>, which is declared with
  \<open>const\<close> inside the \<open>try\<close> block: the scope of the \<open>catch\<close> block holds the parameters
  of the function and no such name, and the error of the read leaves the function.
\<close>

text \<open>\<open>v[0]\<close> and \<open>v?.k\<close>.\<close>

definition first_element :: "jsval \<Rightarrow> error + jsval" where
  "first_element v =
     (case v of
        JUndefined \<Rightarrow> Inl TypeError
      | JNull \<Rightarrow> Inl TypeError
      | JArr xs \<Rightarrow> (case xs of [] \<Rightarrow> Inr JUndefined | x # ys \<Rightarrow> Inr x)
      | JStr s \<Rightarrow> (case s of [] \<Rightarrow> Inr JUndefined | x # ys \<Rightarrow> Inr (JStr [x]))
      | JObj kvs \<Rightarrow> get_prop v ''0''
      | _ \<Rightarrow> Inr JUndefined)"

definition optional_prop :: "jsval \<Rightarrow> string \<Rightarrow> error + jsval" where
  "optional_prop v k = (if v = JUndefined \<or> v = JNull then Inr JUndefined else get_prop v k)"

definition askTutorQuestion :: "groq_client \<Rightarrow> string \<Rightarrow> string \<Rightarrow> error + jsval" where
  "askTutorQuestion groq lessonContext question =
     (case groq of
        None \<Rightarrow>
          Inr (JObj
            [(''answer'',
                JStr (''I understand you're asking about: \"'' @ question
                  @ ''\". While I can't provide a detailed AI-generated response right now, I recommend reviewing the lesson content and exploring the detailed explanations for each subtopic.'')),
             (''relatedConcepts'', JArr []),
             (''furtherReading'', JArr [])])
      | Some outcome \<Rightarrow>
          (case bindE (parse_response outcome) coerce_tutor of
             Inr result \<Rightarrow> Inr result
           | Inl err \<Rightarrow>
               let catch_scope = [(''context'', JStr lessonContext), (''question'', JStr question)]
               in bindE (read_name catch_scope ''completion'') (\<lambda>completion.
                  bindE (get_prop completion ''choices'') (\<lambda>choices.
                  bindE (first_element choices) (\<lambda>choice.
                  bindE (optional_prop choice ''message'') (\<lambda>message.
                  bindE (optional_prop message ''content'') (\<lambda>content.
                    Inr (JObj
                      [(''answer'',
                          or_else content (JStr ''Sorry, I could not generate a response.'')),
                       (''relatedConcepts'', JArr []),
                       (''furtherReading'', JArr [])]))))))))"

section \<open>Shapes of the results\<close>

definition is_string :: "jsval \<Rightarrow> bool" where
  "is_string v = (case v of JStr s \<Rightarrow> True | _ \<Rightarrow> False)"

definition is_string_array :: "jsval \<Rightarrow> bool" where
  "is_string_array v = (case v of JArr xs \<Rightarrow> list_all is_string xs | _ \<Rightarrow> False)"

definition is_score :: "jsval \<Rightarrow> bool" where
  "is_score v = (case v of JNum n \<Rightarrow> num_le (Dec 0 0) n \<and> num_le n (Dec 10 0) | _ \<Rightarrow> False)"







text \<open>The score that the coercion of a parsed grading gives.\<close>

definition score_of :: "jsval \<Rightarrow> error + jsval" where
  "score_of parsed = bindE (coerce_grading parsed) (\<lambda>r. get_prop r ''score'')"

section \<open>Properties of the normalizer\<close>

lemma is_space_btick [simp]: "\<not> is_space BTICK"
  by (simp add: is_space_def)

lemma trim_no_outer_space:
  assumes "\<not> is_space x" and "\<not> is_space y"
  shows "trim (x # s @ [y]) = x # s @ [y]"
  using assms by (simp add: trim_def)

lemma trim_before_fence:
  "trim (body @ ''```'') = dropWhile is_space body @ ''```''"
proof -
  have "dropWhile is_space (body @ ''```'') = dropWhile is_space body @ ''```''"
    by (simp add: dropWhile_append3)
  then show ?thesis
    by (simp add: trim_def)
qed

lemma trim_dropWhile: "trim (dropWhile is_space s) = trim s"
  by (simp add: trim_def)

lemma endsWith_fence: "endsWith (u @ ''```'') ''```''"
  by (simp add: endsWith_def)

lemma close_fence:
  "(if endsWith (trim (body @ ''```'')) ''```''
    then trim (slice_to_end_minus 3 (trim (body @ ''```''))) else trim (body @ ''```''))
   = trim body"
  by (simp add: trim_before_fence endsWith_fence slice_to_end_minus_def trim_dropWhile)

lemma startsWith_iff: "startsWith s p \<longleftrightarrow> (\<exists>r. s = p @ r)"
proof
  assume "startsWith s p"
  then have "s = p @ drop (length p) s"
    unfolding startsWith_def by (metis append_take_drop_id)
  then show "\<exists>r. s = p @ r" ..
next
  assume "\<exists>r. s = p @ r"
  then show "startsWith s p"
    unfolding startsWith_def by auto
qed

lemma clean_json_fence: "cleanJsonResponse (''```json'' @ body @ ''```'') = trim body"
proof -
  have t0: "trim (''```json'' @ body @ ''```'') = ''```json'' @ body @ ''```''"
    using trim_no_outer_space [of BTICK BTICK "''``json'' @ body @ ''``''"] by simp
  have s7: "slice_from 7 (''```json'' @ body @ ''```'') = body @ ''```''"
    by (simp add: slice_from_def)
  have st: "startsWith (''```json'' @ body @ ''```'') ''```json''"
    unfolding startsWith_iff by blast
  have "cleanJsonResponse (''```json'' @ body @ ''```'') =
        (if endsWith (trim (body @ ''```'')) ''```''
         then trim (slice_to_end_minus 3 (trim (body @ ''```''))) else trim (body @ ''```''))"
    unfolding cleanJsonResponse_def Let_def t0 s7 using st by (simp only: if_True)
  then show ?thesis
    by (simp only: close_fence)
qed

lemma json_body_prefix:
  assumes "body @ ''```'' = ''json'' @ r"
  shows "startsWith body ''json''"
proof -
  from assms obtain us where
    "(body = ''json'' @ us \<and> us @ ''```'' = r) \<or> (body @ us = ''json'' \<and> ''```'' = us @ r)"
    unfolding append_eq_append_conv2 by blast
  then show ?thesis
  proof
    assume "body = ''json'' @ us \<and> us @ ''```'' = r"
    then show ?thesis unfolding startsWith_iff by blast
  next
    assume h: "body @ us = ''json'' \<and> ''```'' = us @ r"
    show ?thesis
    proof (cases us)
      case Nil
      with h have "body = ''json'' @ []" by simp
      then show ?thesis unfolding startsWith_iff by blast
    next
      case (Cons u us')
      with h have "u = BTICK" by simp
      moreover from h Cons have "u \<in> set ''json''"
        by (metis in_set_conv_decomp)
      ultimately show ?thesis by simp
    qed
  qed
qed

lemma clean_bare_fence:
  assumes "\<not> startsWith body ''json''"
  shows "cleanJsonResponse (''```'' @ body @ ''```'') = trim body"
proof -
  have t0: "trim (''```'' @ body @ ''```'') = ''```'' @ body @ ''```''"
    using trim_no_outer_space [of BTICK BTICK "''``'' @ body @ ''``''"] by simp
  have s3: "slice_from 3 (''```'' @ body @ ''```'') = body @ ''```''"
    by (simp add: slice_from_def)
  have st: "startsWith (''```'' @ body @ ''```'') ''```''"
    unfolding startsWith_iff by blast
  have nj: "\<not> startsWith (''```'' @ body @ ''```'') ''```json''"
  proof
    assume "startsWith (''```'' @ body @ ''```'') ''```json''"
    then obtain r where "''```'' @ body @ ''```'' = ''```json'' @ r"
      unfolding startsWith_iff by blast
    then have "body @ ''```'' = ''json'' @ r" by simp
    with assms show False using json_body_prefix by blast
  qed
  have "cleanJsonResponse (''```'' @ body @ ''```'') =
        (if endsWith (trim (body @ ''```'')) ''```''
         then trim (slice_to_end_minus 3 (trim (body @ ''```''))) else trim (body @ ''```''))"
    unfolding cleanJsonResponse_def Let_def t0 s3 using st nj by (simp only: if_True if_False)
  then show ?thesis
    by (simp only: close_fence)
qed

lemma clean_no_fence:
  assumes "\<not> startsWith (trim s) ''```''" and "\<not> endsWith (trim s) ''```''"
  shows "cleanJsonResponse s = trim s"
proof -
  have "\<not> startsWith (trim s) ''```json''"
  proof
    assume "startsWith (trim s) ''```json''"
    then obtain r where "trim s = ''```json'' @ r"
      unfolding startsWith_iff by blast
    then have "trim s = ''```'' @ (''json'' @ r)" by simp
    then have "startsWith (trim s) ''```''"
      unfolding startsWith_iff by blast
    with assms(1) show False by simp
  qed
  with assms show ?thesis
    unfolding cleanJsonResponse_def Let_def by (simp only: if_False)
qed

text \<open>
  C7 (as amended).  A text wrapped in the opening marker \<open>```json\<close> and the closing marker
  \<open>```\<close>, or in a bare opening marker \<open>```\<close> (the body not itself starting with
  \<open>json\<close>) and the closing marker, is normalized to the body with its outer white space
  trimmed; a text that, once trimmed, neither starts nor ends with a marker is only
  trimmed.  The normalizer is a total function: it validates nothing and cannot fail.
\<close>

theorem cleanJsonResponse_fences:
  "cleanJsonResponse (''```json'' @ body @ ''```'') = trim body \<and>
   (\<not> startsWith body ''json'' \<longrightarrow> cleanJsonResponse (''```'' @ body @ ''```'') = trim body) \<and>
   (\<not> startsWith (trim s) ''```'' \<and> \<not> endsWith (trim s) ''```'' \<longrightarrow> cleanJsonResponse s = trim s)"
  using clean_json_fence clean_bare_fence clean_no_fence by blast

theorem cleanJsonResponse_fences_witness:
  "cleanJsonResponse (''```json'' @ ''\<newline>{} \<newline>'' @ ''```'') = ''{}'' \<and>
   \<not> startsWith ''\<newline>{} \<newline>'' ''json'' \<and>
   cleanJsonResponse (''```'' @ ''\<newline>{} \<newline>'' @ ''```'') = ''{}'' \<and>
   \<not> startsWith (trim '' {} '') ''```'' \<and> \<not> endsWith (trim '' {} '') ''```'' \<and>
   cleanJsonResponse '' {} '' = ''{}''"
  using cleanJsonResponse_fences [of "''\<newline>{} \<newline>''" "'' {} ''"]
  by (simp add: trim_def startsWith_def endsWith_def is_space_def)

text \<open>
  The claim as stated fails for a language tag other than \<open>json\<close>: the tag stays in the
  output, which therefore differs from the wrapped text without its markers.
\<close>

theorem cleanJsonResponse_other_tag:
  "cleanJsonResponse (''```js'' @ ''\<newline>{}\<newline>'' @ ''```'') = ''js\<newline>{}'' \<and>
   cleanJsonResponse (''```js'' @ ''\<newline>{}\<newline>'' @ ''```'') \<noteq> trim ''\<newline>{}\<newline>''"
  by (simp add: cleanJsonResponse_def trim_def startsWith_def endsWith_def is_space_def
      slice_from_def slice_to_end_minus_def)

section \<open>Basic facts\<close>

lemma bindE_Inr_iff: "bindE m f = Inr r \<longleftrightarrow> (\<exists>x. m = Inr x \<and> f x = Inr r)"
  by (cases m) (simp_all add: bindE_def)

lemma bindE_Inr [simp]: "bindE (Inr x) f = f x"
  by (simp add: bindE_def)

lemma bindE_Inl [simp]: "bindE (Inl e) f = Inl e"
  by (simp add: bindE_def)

lemma field_cons [simp]:
  "field (JObj ((k, v) # kvs)) k' =
     (case map_of (rev kvs) k' of Some x \<Rightarrow> x | None \<Rightarrow> if k = k' then v else JUndefined)"
  by (simp add: field_def get_prop_def own_property_def map_add_def split: option.splits)

lemma field_nil [simp]: "field (JObj []) k = JUndefined"
  by (simp add: field_def get_prop_def own_property_def)





lemma is_string_array_map [simp]: "is_string_array (JArr (map JStr ss))"
  by (simp add: is_string_array_def list_all_iff is_string_def)

lemma is_string_JStr [simp]: "is_string (JStr s)"
  by (simp add: is_string_def)

lemma isArray_JArr [simp]: "isArray (JArr xs)"
  by (simp add: isArray_def)

section \<open>The parser consumes its input\<close>

text \<open>
  Every value, element list and member list leaves a text shorter than the one it was read
  from; so the two comparisons of lengths in \<open>parse_elements\<close> and \<open>parse_members\<close> never
  fail.
\<close>

lemma parse_shorter:
  "parse_value s = POk v r \<Longrightarrow> length r < length s"
  "parse_elements acc s = POk v r \<Longrightarrow> length r < length s"
  "parse_members kvs s = POk v r \<Longrightarrow> length r < length s"
proof (induction s and acc s and kvs s arbitrary: v r and v r and v r rule: parse_value_parse_elements_parse_members.induct)
  case 1
  then show ?case by simp
next
  case (2 c r0)
  have ws: "length (skip_ws r0) \<le> length r0" by (rule skip_ws_length)
  show ?case
  proof (cases "c = CHR ''{''")
    case True
    show ?thesis
    proof (cases "skip_ws r0")
      case Nil
      with True "2.prems" show ?thesis by simp
    next
      case (Cons d r')
      show ?thesis
      proof (cases "d = CHR ''}''")
        case cl: True
        with True Cons "2.prems" ws show ?thesis by auto
      next
        case False
        with True Cons "2.prems" have "parse_members [] (d # r') = POk v r" by simp
        from "2.IH"(1) [OF True Cons False this] ws Cons show ?thesis by simp
      qed
    qed
  next
    case nb: False
    show ?thesis
    proof (cases "c = CHR ''[''")
      case True
      show ?thesis
      proof (cases "skip_ws r0")
        case Nil
        with True nb "2.prems" show ?thesis by simp
      next
        case (Cons d r')
        show ?thesis
        proof (cases "d = CHR '']''")
          case cl: True
          with True nb Cons "2.prems" ws show ?thesis by auto
        next
          case False
          with True nb Cons "2.prems" have "parse_elements [] (d # r') = POk v r" by simp
          from "2.IH"(2) [OF nb True Cons False this] ws Cons show ?thesis by simp
        qed
      qed
    next
      case False
      with nb "2.prems" show ?thesis
        by (auto split: if_splits option.splits dest: json_string_shorter json_number_shorter)
    qed
  qed
next
  case (3 acc)
  then show ?case by simp
next
  case (4 acc c s)
  from "4.prems" obtain v1 r1 where pv: "parse_value (c # s) = POk v1 r1"
    by (auto split: presult.splits)
  from "4.IH"(1) [OF pv] have l1: "length r1 < length (c # s)" .
  have ws: "length (skip_ws r1) \<le> length r1" by (rule skip_ws_length)
  show ?case
  proof (cases "skip_ws r1")
    case Nil
    with pv "4.prems" show ?thesis by simp
  next
    case (Cons d r')
    show ?thesis
    proof (cases "d = CHR '',''")
      case True
      with pv Cons "4.prems" have g: "length r' < length (c # s)"
        and pe: "parse_elements (acc @ [v1]) (skip_ws r') = POk v r"
        by (auto split: if_splits)
      from "4.IH"(2) [OF pv Cons True g pe] have "length r < length (skip_ws r')" .
      moreover have "length (skip_ws r') \<le> length r'" by (rule skip_ws_length)
      ultimately show ?thesis using g by simp
    next
      case False
      with pv Cons "4.prems" have "r = r'" by (auto split: if_splits)
      with Cons ws l1 show ?thesis by simp
    qed
  qed
next
  case (5 acc)
  then show ?case by simp
next
  case (6 acc c r0)
  from "6.prems" have q: "c = DQ" by (auto split: if_splits)
  with "6.prems" obtain k r1 where js: "json_string [] r0 = Some (k, r1)"
    by (auto split: option.splits)
  from json_string_shorter [OF js] have l1: "length r1 < length r0" .
  from q js "6.prems" obtain d r2 where sw: "skip_ws r1 = d # r2"
    by (auto split: list.splits)
  from q js sw "6.prems" have col: "d = CHR '':''" by (auto split: if_splits)
  from q js sw col "6.prems" obtain v1 r3 where pv: "parse_value (skip_ws r2) = POk v1 r3"
    by (auto split: presult.splits)
  have nq: "\<not> c \<noteq> DQ" using q by simp
  have nc: "\<not> d \<noteq> CHR '':''" using col by simp
  from "6.IH"(1) [OF nq js refl sw nc pv] have l3: "length r3 < length (skip_ws r2)" .
  have w1: "length (skip_ws r1) \<le> length r1" by (rule skip_ws_length)
  have w2: "length (skip_ws r2) \<le> length r2" by (rule skip_ws_length)
  have w3: "length (skip_ws r3) \<le> length r3" by (rule skip_ws_length)
  from sw w1 have l2: "length r2 < length r1" by simp
  show ?case
  proof (cases "skip_ws r3")
    case Nil
    with q js sw col pv "6.prems" show ?thesis by simp
  next
    case (Cons d' r4)
    show ?thesis
    proof (cases "d' = CHR '',''")
      case True
      with q js sw col pv Cons "6.prems" have g: "length r4 < length (c # r0)"
        and pm: "parse_members (acc @ [(k, v1)]) (skip_ws r4) = POk v r"
        by (auto split: if_splits)
      from "6.IH"(2) [OF nq js refl sw nc pv Cons True g pm]
      have "length r < length (skip_ws r4)" .
      moreover have "length (skip_ws r4) \<le> length r4" by (rule skip_ws_length)
      ultimately show ?thesis using g by simp
    next
      case False
      with q js sw col pv Cons "6.prems" have "r = r4" by (auto split: if_splits)
      with Cons w3 l3 w2 l2 l1 show ?thesis by simp
    qed
  qed
qed

lemma parse_elements_guard:
  assumes "parse_value (c # s) = POk v r" and "skip_ws r = d # r'"
  shows "length r' < length (c # s)"
proof -
  have "length (skip_ws r) \<le> length r" by (rule skip_ws_length)
  with parse_shorter(1) [OF assms(1)] assms(2) show ?thesis by simp
qed

lemma parse_members_guard:
  assumes "json_string [] r = Some (k, r1)" and "skip_ws r1 = d # r2"
    and "parse_value (skip_ws r2) = POk v r3" and "skip_ws r3 = d' # r4"
  shows "length r4 < length (c # r)"
proof -
  have "length (skip_ws r3) \<le> length r3" by (rule skip_ws_length)
  moreover have "length (skip_ws r2) \<le> length r2" by (rule skip_ws_length)
  moreover have "length (skip_ws r1) \<le> length r1" by (rule skip_ws_length)
  ultimately show ?thesis
    using parse_shorter(1) [OF assms(3)] json_string_shorter [OF assms(1)] assms(2,4)
    by simp
qed

section \<open>The escape repair engine on valid text\<close>

text \<open>
  C6.  A text that strict parsing accepts is returned unchanged by \<open>fixJsonEscaping\<close>, and
  the strict parse that follows succeeds, with the same value.
\<close>

theorem fixJsonEscaping_valid_unchanged:
  "JSON_parse s = Inr v \<Longrightarrow> fixJsonEscaping s = s \<and> JSON_parse (fixJsonEscaping s) = Inr v"
  by (simp add: fixJsonEscaping_def)

lemma parse_small_object:
  "JSON_parse ''{\"content\": \"ok\", \"keyPoints\": []}''
   = Inr (JObj [(''content'', JStr ''ok''), (''keyPoints'', JArr [])])"
  by code_simp

theorem fixJsonEscaping_valid_unchanged_witness:
  "JSON_parse ''{\"content\": \"ok\", \"keyPoints\": []}''
     = Inr (JObj [(''content'', JStr ''ok''), (''keyPoints'', JArr [])]) \<and>
   fixJsonEscaping ''{\"content\": \"ok\", \"keyPoints\": []}''
     = ''{\"content\": \"ok\", \"keyPoints\": []}'' \<and>
   JSON_parse (fixJsonEscaping ''{\"content\": \"ok\", \"keyPoints\": []}'')
     = Inr (JObj [(''content'', JStr ''ok''), (''keyPoints'', JArr [])])"
  using fixJsonEscaping_valid_unchanged [OF parse_small_object] parse_small_object
  by simp

section \<open>The fallback learning plan\<close>

lemma day_title:
  "field (fallback_day topic i) ''title''
   = JStr (''Day '' @ int_to_string i @ '': Introduction to '' @ topic)"
  by (simp add: fallback_day_def)

lemma fallback_plan_days:
  assumes "0 \<le> d"
  shows "\<exists>ds. createFallbackLearningPlan topic d = JObj [(''days'', JArr ds)] \<and>
           int (length ds) = min d 7 \<and>
           (\<forall>n < length ds. field (ds ! n) ''title''
              = JStr (''Day '' @ int_to_string (int n + 1) @ '': Introduction to '' @ topic))"
proof -
  let ?ds = "map (fallback_day topic) [1 .. min d 7]"
  have len: "int (length ?ds) = min d 7"
    using assms by simp
  have "field (?ds ! n) ''title''
          = JStr (''Day '' @ int_to_string (int n + 1) @ '': Introduction to '' @ topic)"
    if "n < length ?ds" for n
  proof -
    from that have "n < nat (min d 7)"
      by simp
    then have "1 + int n \<le> min d 7"
      by arith
    then have "[1 .. min d 7] ! n = 1 + int n"
      by (rule nth_upto)
    with that show ?thesis
      by (simp add: day_title add.commute)
  qed
  with len show ?thesis
    unfolding createFallbackLearningPlan_def by blast
qed

lemma rust_plan_titles:
  "map (\<lambda>day. field day ''title'')
     (case field (createFallbackLearningPlan ''Rust'' 10) ''days'' of JArr ds \<Rightarrow> ds | _ \<Rightarrow> [])
   = map JStr [''Day 1: Introduction to Rust'', ''Day 2: Introduction to Rust'',
               ''Day 3: Introduction to Rust'', ''Day 4: Introduction to Rust'',
               ''Day 5: Introduction to Rust'', ''Day 6: Introduction to Rust'',
               ''Day 7: Introduction to Rust'']"
  by code_simp

text \<open>
  C9.  Without a model client \<open>generateLearningPlan\<close> returns the locally computed plan:
  for a topic \<open>t\<close> and a duration of \<open>d \<ge> 0\<close> days it has \<open>min d 7\<close> days, and day \<open>n\<close> is
  titled ``Day n: Introduction to t''.  For the topic Rust and 10 days these are the seven
  titles from ``Day 1: Introduction to Rust'' to ``Day 7: Introduction to Rust''.
\<close>

theorem generateLearningPlan_no_client:
  "generateLearningPlan None topic d level dailyTime = Inr (createFallbackLearningPlan topic d) \<and>
   (0 \<le> d \<longrightarrow>
     (\<exists>ds. createFallbackLearningPlan topic d = JObj [(''days'', JArr ds)] \<and>
        int (length ds) = min d 7 \<and>
        (\<forall>n < length ds. field (ds ! n) ''title''
           = JStr (''Day '' @ int_to_string (int n + 1) @ '': Introduction to '' @ topic)))) \<and>
   map (\<lambda>day. field day ''title'')
     (case field (createFallbackLearningPlan ''Rust'' 10) ''days'' of JArr ds \<Rightarrow> ds | _ \<Rightarrow> [])
   = map JStr [''Day 1: Introduction to Rust'', ''Day 2: Introduction to Rust'',
               ''Day 3: Introduction to Rust'', ''Day 4: Introduction to Rust'',
               ''Day 5: Introduction to Rust'', ''Day 6: Introduction to Rust'',
               ''Day 7: Introduction to Rust'']"
  using fallback_plan_days [of d topic] rust_plan_titles
  by (simp add: generateLearningPlan_def)

lemma rust_plan_length:
  "(case field (createFallbackLearningPlan ''Rust'' 10) ''days'' of JArr ds \<Rightarrow> length ds | _ \<Rightarrow> 0) = 7"
  by code_simp

theorem generateLearningPlan_no_client_witness:
  "(0::int) \<le> 10 \<and>
   generateLearningPlan None ''Rust'' 10 ''beginner'' ''30 minutes''
     = Inr (createFallbackLearningPlan ''Rust'' 10) \<and>
   (\<exists>ds. createFallbackLearningPlan ''Rust'' 10 = JObj [(''days'', JArr ds)] \<and>
      length ds = 7 \<and>
      field (ds ! 0) ''title'' = JStr ''Day 1: Introduction to Rust'' \<and>
      field (ds ! 6) ''title'' = JStr ''Day 7: Introduction to Rust'')"
proof -
  from generateLearningPlan_no_client [of "''Rust''" 10 "''beginner''" "''30 minutes''"]
  obtain ds where
    g: "generateLearningPlan None ''Rust'' 10 ''beginner'' ''30 minutes''
          = Inr (createFallbackLearningPlan ''Rust'' 10)"
    and p: "createFallbackLearningPlan ''Rust'' 10 = JObj [(''days'', JArr ds)]"
    and l: "int (length ds) = min 10 7"
    and t: "\<forall>n < length ds. field (ds ! n) ''title''
              = JStr (''Day '' @ int_to_string (int n + 1) @ '': Introduction to '' @ ''Rust'')"
    by auto
  from l have len: "length ds = 7" by simp
  have i1: "int_to_string 1 = ''1''" by code_simp
  have i7: "int_to_string 7 = ''7''" by code_simp
  from t len have "field (ds ! 0) ''title'' = JStr ''Day 1: Introduction to Rust''"
    using i1 by auto
  moreover from t len have "field (ds ! 6) ''title'' = JStr ''Day 7: Introduction to Rust''"
    using i7 by auto
  ultimately show ?thesis using g p len by auto
qed

section \<open>Grading\<close>

lemma num_less_asym: "num_less x y \<Longrightarrow> \<not> num_less y x"
  by (cases x; cases y) (auto simp: min_def split: if_splits)

lemma num_less_irrefl [simp]: "\<not> num_less x x"
  by (cases x) auto

lemma clamp_range:
  assumes "n \<noteq> NaN"
  shows "is_score (JNum (Math_max (Dec 0 0) (Math_min (Dec 10 0) n)))"
proof -
  have ten: "num_less (Dec 0 0) (Dec 10 0)" by simp
  show ?thesis
  proof (cases "num_less n (Dec 10 0)")
    case True
    then have m: "Math_min (Dec 10 0) n = n"
      using assms by (simp add: Math_min_def)
    show ?thesis
    proof (cases "num_less (Dec 0 0) n")
      case pos: True
      then have "Math_max (Dec 0 0) n = n"
        using assms by (simp add: Math_max_def)
      with m True pos assms show ?thesis
        by (simp add: is_score_def num_le_def num_less_asym)
    next
      case False
      then have "Math_max (Dec 0 0) n = Dec 0 0"
        using assms by (simp add: Math_max_def)
      with m ten show ?thesis
        by (simp add: is_score_def num_le_def)
    qed
  next
    case False
    then have "Math_min (Dec 10 0) n = Dec 10 0"
      using assms by (simp add: Math_min_def)
    then show ?thesis
      by (simp add: is_score_def num_le_def Math_max_def)
  qed
qed

lemma coerce_grading_score:
  assumes "coerce_grading parsed = Inr r"
  shows "\<exists>v n. get_prop parsed ''score'' = Inr v \<and> ToNumber v = Inr n \<and>
           field r ''score''
             = JNum (Math_max (Dec 0 0)
                       (Math_min (Dec 10 0) (if truthy (JNum n) then n else Dec 0 0)))"
  using assms by (auto simp: coerce_grading_def bindE_Inr_iff)

lemma coerce_grading_is_score:
  assumes "coerce_grading parsed = Inr r"
  shows "is_score (field r ''score'')"
proof -
  from coerce_grading_score [OF assms] obtain n where
    "field r ''score''
       = JNum (Math_max (Dec 0 0) (Math_min (Dec 10 0) (if truthy (JNum n) then n else Dec 0 0)))"
    by blast
  moreover have "(if truthy (JNum n) then n else Dec 0 0) \<noteq> NaN"
    by (cases n) auto
  ultimately show ?thesis
    using clamp_range by simp
qed

lemma coerce_grading_nan:
  assumes "coerce_grading parsed = Inr r" and "get_prop parsed ''score'' = Inr v"
    and "ToNumber v = Inr NaN"
  shows "field r ''score'' = JNum (Dec 0 0)"
proof -
  from coerce_grading_score [OF assms(1)] assms(2,3)
  have "field r ''score''
         = JNum (Math_max (Dec 0 0)
                   (Math_min (Dec 10 0) (if truthy (JNum NaN) then NaN else Dec 0 0)))"
    by auto
  then show ?thesis
    by (simp add: Math_max_def Math_min_def)
qed

lemma at_most_zero_below_ten:
  assumes "\<not> num_less (Dec 0 0) x" and "x \<noteq> NaN"
  shows "num_less x (Dec 10 0)"
proof (cases x)
  case (Dec m e)
  have "(0::int) < 10 ^ nat (e - min 0 e)"
    by simp
  with assms(1) Dec have "m \<le> 0"
    by (simp add: not_less zero_less_mult_iff)
  then have "m * 10 ^ nat (e - min e 0) \<le> 0"
    by (simp add: mult_le_0_iff)
  moreover have "(0::int) < 10 * 10 ^ nat (- min e 0)"
    by simp
  ultimately have "m * 10 ^ nat (e - min e 0) < 10 * 10 ^ nat (- min e 0)"
    by (rule le_less_trans)
  then show ?thesis
    using Dec by simp
qed (use assms in auto)

lemma positive_truthy: "num_less (Dec 0 0) n \<Longrightarrow> truthy (JNum n)"
  by (cases n) auto

lemma ten_or_more_truthy: "n \<noteq> NaN \<Longrightarrow> \<not> num_less n (Dec 10 0) \<Longrightarrow> truthy (JNum n)"
  by (cases n) auto

lemma clamp_inside:
  assumes "num_less (Dec 0 0) n" and "num_less n (Dec 10 0)"
  shows "Math_max (Dec 0 0) (Math_min (Dec 10 0) (if truthy (JNum n) then n else Dec 0 0)) = n"
proof -
  from assms(1) have "n \<noteq> NaN" by (cases n) auto
  with assms positive_truthy [OF assms(1)] show ?thesis
    by (simp add: Math_max_def Math_min_def)
qed

lemma clamp_above:
  assumes "n \<noteq> NaN" and "\<not> num_less n (Dec 10 0)"
  shows "Math_max (Dec 0 0) (Math_min (Dec 10 0) (if truthy (JNum n) then n else Dec 0 0))
         = Dec 10 0"
  using assms ten_or_more_truthy [OF assms]
  by (simp add: Math_max_def Math_min_def)

lemma clamp_below:
  assumes "\<not> num_less (Dec 0 0) n"
  shows "Math_max (Dec 0 0) (Math_min (Dec 10 0) (if truthy (JNum n) then n else Dec 0 0))
         = Dec 0 0"
proof -
  define x where "x = (if truthy (JNum n) then n else Dec 0 0)"
  have nn: "x \<noteq> NaN"
    unfolding x_def by (cases n) auto
  have np: "\<not> num_less (Dec 0 0) x"
    unfolding x_def using assms by simp
  from at_most_zero_below_ten [OF np nn] have "Math_min (Dec 10 0) x = x"
    using nn by (simp add: Math_min_def)
  moreover have "Math_max (Dec 0 0) x = Dec 0 0"
    using nn np by (simp add: Math_max_def)
  ultimately show ?thesis
    unfolding x_def by simp
qed

lemma coerce_grading_clamp:
  assumes "coerce_grading parsed = Inr r" and "get_prop parsed ''score'' = Inr v"
    and "ToNumber v = Inr n"
  shows "num_less (Dec 0 0) n \<and> num_less n (Dec 10 0) \<longrightarrow> field r ''score'' = JNum n"
    and "n \<noteq> NaN \<and> \<not> num_less n (Dec 10 0) \<longrightarrow> field r ''score'' = JNum (Dec 10 0)"
    and "\<not> num_less (Dec 0 0) n \<longrightarrow> field r ''score'' = JNum (Dec 0 0)"
proof -
  from coerce_grading_score [OF assms(1)] assms(2,3)
  have s: "field r ''score''
         = JNum (Math_max (Dec 0 0)
                   (Math_min (Dec 10 0) (if truthy (JNum n) then n else Dec 0 0)))"
    by auto
  show "num_less (Dec 0 0) n \<and> num_less n (Dec 10 0) \<longrightarrow> field r ''score'' = JNum n"
    using s clamp_inside by simp
  show "n \<noteq> NaN \<and> \<not> num_less n (Dec 10 0) \<longrightarrow> field r ''score'' = JNum (Dec 10 0)"
    using s clamp_above by simp
  show "\<not> num_less (Dec 0 0) n \<longrightarrow> field r ''score'' = JNum (Dec 0 0)"
    using s clamp_below by simp
qed

lemma coerce_grading_number:
  assumes "coerce_grading parsed = Inr r"
  shows "\<exists>v n. get_prop parsed ''score'' = Inr v \<and> ToNumber v = Inr n"
  using coerce_grading_score [OF assms] by blast

lemma gradeTheoryAnswer_coerced:
  assumes "parse_response outcome = Inr parsed" and "coerce_grading parsed = Inr r"
  shows "gradeTheoryAnswer (Some outcome) question userAnswer correctAnswer keyPoints = Inr r"
  using assms by (simp add: gradeTheoryAnswer_def)

lemma score_examples:
  "score_of (JObj [(''score'', JNum (Dec (- 5) 0))]) = Inr (JNum (Dec 0 0))"
  "score_of (JObj [(''score'', JNum (Dec 15 0))]) = Inr (JNum (Dec 10 0))"
  "score_of (JObj [(''score'', JStr ''8'')]) = Inr (JNum (Dec 8 0))"
  "score_of (JObj [(''score'', JStr ''abc'')]) = Inr (JNum (Dec 0 0))"
  "score_of (JObj []) = Inr (JNum (Dec 0 0))"
  by code_simp+

text \<open>
  C8.  In \<open>gradeTheoryAnswer\<close> a parsed grading that is coerced is what the operation
  returns, and its score is \<open>Number\<close> of the parsed score, clamped: a number strictly
  between 0 and 10 is kept as it is, a number of 10 or more (a number not below 10) gives
  10, and a number of 0 or less, or \<open>NaN\<close> (a text that is not numeric, a missing score),
  gives 0; so the score always lies in the range from 0 to 10 inclusive.  The scores \<open>-5\<close>,
  \<open>15\<close>, \<open>"8"\<close>, \<open>"abc"\<close> and a missing score give 0, 10, 8, 0 and 0.
\<close>

theorem score_coerced_and_clamped:
  "(coerce_grading parsed = Inr r \<longrightarrow> is_score (field r ''score'')) \<and>
   (coerce_grading parsed = Inr r \<and> get_prop parsed ''score'' = Inr v \<and> ToNumber v = Inr NaN
      \<longrightarrow> field r ''score'' = JNum (Dec 0 0)) \<and>
   (coerce_grading parsed = Inr r \<longrightarrow>
      (\<exists>w k. get_prop parsed ''score'' = Inr w \<and> ToNumber w = Inr k)) \<and>
   (coerce_grading parsed = Inr r \<and> get_prop parsed ''score'' = Inr v \<and> ToNumber v = Inr n
      \<longrightarrow> (num_less (Dec 0 0) n \<and> num_less n (Dec 10 0) \<longrightarrow> field r ''score'' = JNum n) \<and>
          (n \<noteq> NaN \<and> \<not> num_less n (Dec 10 0) \<longrightarrow> field r ''score'' = JNum (Dec 10 0)) \<and>
          (\<not> num_less (Dec 0 0) n \<longrightarrow> field r ''score'' = JNum (Dec 0 0))) \<and>
   (parse_response outcome = Inr parsed \<and> coerce_grading parsed = Inr r \<longrightarrow>
      gradeTheoryAnswer (Some outcome) question userAnswer correctAnswer keyPoints = Inr r) \<and>
   score_of (JObj [(''score'', JNum (Dec (- 5) 0))]) = Inr (JNum (Dec 0 0)) \<and>
   score_of (JObj [(''score'', JNum (Dec 15 0))]) = Inr (JNum (Dec 10 0)) \<and>
   score_of (JObj [(''score'', JStr ''8'')]) = Inr (JNum (Dec 8 0)) \<and>
   score_of (JObj [(''score'', JStr ''abc'')]) = Inr (JNum (Dec 0 0)) \<and>
   score_of (JObj []) = Inr (JNum (Dec 0 0))"
proof -
  have "coerce_grading parsed = Inr r \<and> get_prop parsed ''score'' = Inr v \<and> ToNumber v = Inr n
      \<longrightarrow> (num_less (Dec 0 0) n \<and> num_less n (Dec 10 0) \<longrightarrow> field r ''score'' = JNum n) \<and>
          (n \<noteq> NaN \<and> \<not> num_less n (Dec 10 0) \<longrightarrow> field r ''score'' = JNum (Dec 10 0)) \<and>
          (\<not> num_less (Dec 0 0) n \<longrightarrow> field r ''score'' = JNum (Dec 0 0))"
    using coerce_grading_clamp by blast
  moreover have "parse_response outcome = Inr parsed \<and> coerce_grading parsed = Inr r \<longrightarrow>
      gradeTheoryAnswer (Some outcome) question userAnswer correctAnswer keyPoints = Inr r"
    using gradeTheoryAnswer_coerced by blast
  moreover have "coerce_grading parsed = Inr r \<longrightarrow>
      (\<exists>w k. get_prop parsed ''score'' = Inr w \<and> ToNumber w = Inr k)"
    using coerce_grading_number by blast
  ultimately show ?thesis
    using coerce_grading_is_score coerce_grading_nan score_examples by blast
qed

lemma grading_examples:
  "parse_response (Completion (Some ''{\"score\": 7}'')) = Inr (JObj [(''score'', JNum (Dec 7 0))])"
  "coerce_grading (JObj [(''score'', JNum (Dec 7 0))])
   = Inr (JObj [(''score'', JNum (Dec 7 0)), (''feedback'', JStr ''No feedback available''),
                (''strengths'', JArr []), (''improvements'', JArr [])])"
  "get_prop (JObj [(''score'', JNum (Dec 7 0))]) ''score'' = Inr (JNum (Dec 7 0))"
  "ToNumber (JNum (Dec 7 0)) = Inr (Dec 7 0)"
  "coerce_grading (JObj [(''score'', JNum (Dec 15 0))])
   = Inr (JObj [(''score'', JNum (Dec 10 0)), (''feedback'', JStr ''No feedback available''),
                (''strengths'', JArr []), (''improvements'', JArr [])])"
  "get_prop (JObj [(''score'', JNum (Dec 15 0))]) ''score'' = Inr (JNum (Dec 15 0))"
  "ToNumber (JNum (Dec 15 0)) = Inr (Dec 15 0)"
  "coerce_grading (JObj [(''score'', JStr ''abc'')])
   = Inr (JObj [(''score'', JNum (Dec 0 0)), (''feedback'', JStr ''No feedback available''),
                (''strengths'', JArr []), (''improvements'', JArr [])])"
  "get_prop (JObj [(''score'', JStr ''abc'')]) ''score'' = Inr (JStr ''abc'')"
  "ToNumber (JStr ''abc'') = Inr NaN"
  by code_simp+

theorem score_coerced_and_clamped_witness:
  "parse_response (Completion (Some ''{\"score\": 7}'')) = Inr (JObj [(''score'', JNum (Dec 7 0))]) \<and>
   coerce_grading (JObj [(''score'', JNum (Dec 7 0))])
     = Inr (JObj [(''score'', JNum (Dec 7 0)), (''feedback'', JStr ''No feedback available''),
                  (''strengths'', JArr []), (''improvements'', JArr [])]) \<and>
   get_prop (JObj [(''score'', JNum (Dec 7 0))]) ''score'' = Inr (JNum (Dec 7 0)) \<and>
   ToNumber (JNum (Dec 7 0)) = Inr (Dec 7 0) \<and>
   num_less (Dec 0 0) (Dec 7 0) \<and> num_less (Dec 7 0) (Dec 10 0) \<and>
   gradeTheoryAnswer (Some (Completion (Some ''{\"score\": 7}'')))
       ''What is a closure?'' ''A function.'' ''A function with its environment.'' [''environment'']
     = Inr (JObj [(''score'', JNum (Dec 7 0)), (''feedback'', JStr ''No feedback available''),
                  (''strengths'', JArr []), (''improvements'', JArr [])]) \<and>
   is_score (JNum (Dec 7 0)) \<and>
   coerce_grading (JObj [(''score'', JNum (Dec 15 0))])
     = Inr (JObj [(''score'', JNum (Dec 10 0)), (''feedback'', JStr ''No feedback available''),
                  (''strengths'', JArr []), (''improvements'', JArr [])]) \<and>
   ToNumber (JNum (Dec 15 0)) = Inr (Dec 15 0) \<and>
   Dec 15 0 \<noteq> NaN \<and> \<not> num_less (Dec 15 0) (Dec 10 0) \<and>
   coerce_grading (JObj [(''score'', JStr ''abc'')])
     = Inr (JObj [(''score'', JNum (Dec 0 0)), (''feedback'', JStr ''No feedback available''),
                  (''strengths'', JArr []), (''improvements'', JArr [])]) \<and>
   get_prop (JObj [(''score'', JStr ''abc'')]) ''score'' = Inr (JStr ''abc'') \<and>
   ToNumber (JStr ''abc'') = Inr NaN \<and>
   \<not> num_less (Dec 0 0) NaN \<and>
   is_score (JNum (Dec 0 0))"
  using score_coerced_and_clamped
    [where parsed = "JObj [(''score'', JNum (Dec 7 0))]"
       and r = "JObj [(''score'', JNum (Dec 7 0)), (''feedback'', JStr ''No feedback available''),
                      (''strengths'', JArr []), (''improvements'', JArr [])]"
       and v = "JNum (Dec 7 0)" and n = "Dec 7 0"
       and outcome = "Completion (Some ''{\"score\": 7}'')"
       and question = "''What is a closure?''" and userAnswer = "''A function.''"
       and correctAnswer = "''A function with its environment.''"
       and keyPoints = "[''environment'']"]
    score_coerced_and_clamped
    [where parsed = "JObj [(''score'', JNum (Dec 15 0))]"
       and r = "JObj [(''score'', JNum (Dec 10 0)), (''feedback'', JStr ''No feedback available''),
                      (''strengths'', JArr []), (''improvements'', JArr [])]"
       and v = "JNum (Dec 15 0)" and n = "Dec 15 0"]
    score_coerced_and_clamped
    [where parsed = "JObj [(''score'', JStr ''abc'')]"
       and r = "JObj [(''score'', JNum (Dec 0 0)), (''feedback'', JStr ''No feedback available''),
                      (''strengths'', JArr []), (''improvements'', JArr [])]"
       and v = "JStr ''abc''" and n = NaN]
    grading_examples
  by simp

text \<open>
  C10.  Without a client, and whenever the \<open>try\<close> block of \<open>gradeTheoryAnswer\<close> throws (no
  response, a response that does not parse, a parsed value that cannot be coerced), the
  grade is computed from the length of the answer alone: the score is 7 for an answer of
  more than 50 characters and 5 otherwise, the feedback is the text that goes with that
  score, and the strengths and improvements are fixed.  The question, the expected answer
  and the key points play no part.
\<close>

theorem fallback_grade_by_length:
  "gradeTheoryAnswer None question userAnswer correctAnswer keyPoints
     = Inr (fallback_grading userAnswer) \<and>
   (bindE (parse_response outcome) coerce_grading = Inl err \<longrightarrow>
      gradeTheoryAnswer (Some outcome) question userAnswer correctAnswer keyPoints
        = Inr (fallback_grading userAnswer)) \<and>
   fallback_grading userAnswer
     = JObj
        [(''score'', JNum (Dec (if length userAnswer > 50 then 7 else 5) 0)),
         (''feedback'',
            JStr (if length userAnswer > 50
                  then ''Your answer shows good understanding. Consider elaborating more on the key concepts.''
                  else ''Your answer shows basic understanding. Consider elaborating more on the key concepts.'')),
         (''strengths'', JArr [JStr ''Attempted to answer the question'']),
         (''improvements'',
            JArr [JStr ''Provide more detailed explanations'',
                  JStr ''Include specific examples''])]"
  by (simp add: gradeTheoryAnswer_def fallback_grading_def)

lemma grading_of_prose:
  "bindE (parse_response (Completion (Some ''Good effort, 8 out of 10.''))) coerce_grading
   = Inl SyntaxError"
  by code_simp

theorem fallback_grade_by_length_witness:
  "bindE (parse_response (Completion (Some ''Good effort, 8 out of 10.''))) coerce_grading
     = Inl SyntaxError \<and>
   gradeTheoryAnswer (Some (Completion (Some ''Good effort, 8 out of 10.'')))
       ''What is a closure?'' ''A function.'' ''A function with its environment.'' [''environment'']
     = Inr (fallback_grading ''A function.'') \<and>
   fallback_grading ''A function.''
     = JObj
        [(''score'', JNum (Dec 5 0)),
         (''feedback'',
            JStr ''Your answer shows basic understanding. Consider elaborating more on the key concepts.''),
         (''strengths'', JArr [JStr ''Attempted to answer the question'']),
         (''improvements'',
            JArr [JStr ''Provide more detailed explanations'',
                  JStr ''Include specific examples''])]"
  using fallback_grade_by_length
    [of "''What is a closure?''" "''A function.''" "''A function with its environment.''"
        "[''environment'']" "Completion (Some ''Good effort, 8 out of 10.'')" SyntaxError]
    grading_of_prose
  by simp

section \<open>Failures of the recovery pipeline\<close>


text \<open>
  C1 fails for \<open>askTutorQuestion\<close>.  The model answers in prose, the text does not parse,
  and the \<open>catch\<close> block, which reads the name \<open>completion\<close> of the \<open>try\<close> block, throws
  a \<open>ReferenceError\<close> that leaves the function.
\<close>

theorem askTutorQuestion_raises:
  "bindE (parse_response (Completion (Some ''I do not know.''))) coerce_tutor = Inl SyntaxError \<and>
   askTutorQuestion (Some (Completion (Some ''I do not know.''))) ''lesson'' ''why?''
   = Inl (ReferenceError ''completion'')"
  by code_simp

text \<open>\<open>generateLearningPlan\<close> returns on every path, as the three operations of C2 do.\<close>

lemma generateLearningPlan_returns:
  "\<exists>r. generateLearningPlan groq topic durationDays level dailyTime = Inr r"
  by (cases groq) (auto simp: generateLearningPlan_def split: sum.splits)


text \<open>
  C3 fails in \<open>getDetailedSubtopicContent\<close>.  The response below does not parse, before
  or after repair.  \<open>extractContentFromResponse\<close> would recover its content and key
  points, but the \<open>catch\<close> block tests \<open>typeof response\<close> for a name of the \<open>try\<close>
  block, never calls it, and returns the placeholder with empty lists.
\<close>

theorem fallback_extraction_not_reached:
  "bindE (parse_response
            (Completion (Some ''Here: {\"content\": \"Hi\", \"keyPoints\": [\"a\", \"b\"]}'')))
     coerce_detailed = Inl SyntaxError \<and>
   getDetailedSubtopicContent
     (Some (Completion (Some ''Here: {\"content\": \"Hi\", \"keyPoints\": [\"a\", \"b\"]}'')))
     ''Rust'' ''Day 1'' ''Ownership'' ''beginner''
   = Inr (JObj [(''content'', JStr ''Content could not be extracted from the response.''),
                (''keyPoints'', JArr []), (''examples'', JArr []),
                (''practicalApplications'', JArr [])]) \<and>
   extractContentFromResponse ''Here: {\"content\": \"Hi\", \"keyPoints\": [\"a\", \"b\"]}''
   = JObj [(''content'', JStr ''Hi''), (''keyPoints'', JArr [JStr ''a'', JStr ''b'']),
           (''examples'', JArr []), (''practicalApplications'', JArr [])]"
  by code_simp

lemma escape_content_word_boundaries:
  "escape_content ''line1\<newline>line2''
   = [BSL] @ ''bline1'' @ [BSL] @ ''b'' @ [BSL, BSL] @ ''bnline2'' @ [BSL] @ ''b''"
  by code_simp

text \<open>
  C4 fails.  The last replacement of the escaping chain, written \<open>/\b/g\<close>, inserts the two
  characters \<open>\b\<close> at every word boundary of the field; the third replacement then escapes
  the field once more.  The repaired text parses, and its content holds backspaces and
  backslashes instead of the two lines.
\<close>

theorem backtick_response_content:
  "cleanJsonResponse ''```json\<newline>{\"content\": `line1\<newline>line2`}\<newline>```''
   = ''{\"content\": `line1\<newline>line2`}'' \<and>
   fixJsonEscaping ''{\"content\": `line1\<newline>line2`}''
   = ''{\"content\": \"'' @ [BSL, BSL, BSL] @ ''bbline1'' @ [BSL] @ ''b'' @ [BSL, BSL, BSL] @ ''bb''
     @ [BSL] @ ''b'' @ [BSL, BSL, BSL, BSL, BSL] @ ''bbnline2'' @ [BSL] @ ''b''
     @ [BSL, BSL, BSL] @ ''bb'' @ [BSL] @ ''b\"}'' \<and>
   getDetailedSubtopicContent
     (Some (Completion (Some ''```json\<newline>{\"content\": `line1\<newline>line2`}\<newline>```'')))
     ''Rust'' ''Day 1'' ''Ownership'' ''beginner''
   = Inr (JObj
       [(''content'',
           JStr ([BSL, BS] @ ''bline1'' @ [BS, BSL, BS] @ ''b'' @ [BS, BSL, BSL, BS] @ ''bnline2''
                 @ [BS, BSL, BS] @ ''b'' @ [BS])),
        (''keyPoints'', JArr []), (''examples'', JArr []), (''practicalApplications'', JArr [])])"
  by code_simp

text \<open>
  C5 fails.  The field below is an escaped backslash, in a text that does not parse
  because of the words before it.  It contains neither an escaped line feed nor an escaped
  quote, so each run of the repair doubles its backslashes again.
\<close>

theorem fixJsonEscaping_not_idempotent:
  "fixJsonEscaping (''Here: {\"content\": \"'' @ [BSL, BSL] @ ''\"}'')
   = ''Here: {\"content\": \"'' @ [BSL, BSL, BSL, BSL] @ ''\"}'' \<and>
   fixJsonEscaping (fixJsonEscaping (''Here: {\"content\": \"'' @ [BSL, BSL] @ ''\"}''))
   = ''Here: {\"content\": \"'' @ [BSL, BSL, BSL, BSL, BSL, BSL, BSL, BSL] @ ''\"}''"
  by code_simp

section \<open>Coercion of parsed objects\<close>



lemma get_prop_field: "get_prop v k = Inr x \<Longrightarrow> field v k = x"
  by (simp add: field_def)

lemma string_or_default:
  assumes "string_or obj k d = Inr r" and "\<not> truthy (field obj k)"
  shows "r = JStr d"
  using assms by (auto simp: string_or_def bindE_Inr_iff or_else_def dest: get_prop_field)

lemma string_or_converted:
  assumes "string_or obj k d = Inr r" and "truthy (field obj k)"
  shows "ToString (field obj k) = Inr s \<longrightarrow> r = JStr s"
  using assms by (auto simp: string_or_def bindE_Inr_iff or_else_def dest: get_prop_field)





















section \<open>Rules of the coercion\<close>
















text \<open>
  \<open>generateLearningPlan\<close> is not among the operations above: it returns whatever the
  response parses to.
\<close>

lemma generateLearningPlan_unvalidated:
  "generateLearningPlan (Some (Completion (Some ''{}''))) ''Rust'' 10 ''beginner'' ''30 minutes''
   = Inr (JObj [])"
  by code_simp






end
